theory Spec2Isabelle
  imports Main "HOL-Library.Sublist" "HOL-Library.AList"
begin

section \<open>Gatekeeper: port assignment against a device registry\<close>

text \<open>
  A shallow embedding of \<^verbatim>\<open>gatekeeper.py\<close>: the MAC normaliser, the allocator
  \<^verbatim>\<open>get_max_assigned_port\<close>, the resolver \<^verbatim>\<open>find_device_by_mac\<close> and the two
  endpoints \<^verbatim>\<open>health_check\<close> and \<^verbatim>\<open>request_port\<close>. The NetBox registry behind
  \<^verbatim>\<open>pynetbox\<close> is an explicit state that every function receives and, where it
  writes, returns. Python exceptions are values of a sum type.
\<close>

subsection \<open>Python strings\<close>

text \<open>
  A Python string is a list of Unicode code points; \<^verbatim>\<open>len\<close>, slicing and
  \<^verbatim>\<open>in\<close> count code points. A literal of the source is written \<open>str ''...''\<close>.
\<close>

type_synonym ustring = "nat list"

definition str :: "string \<Rightarrow> ustring" where
  "str s = map of_char s"

text \<open>The three separators, \<^verbatim>\<open>':'\<close>, \<^verbatim>\<open>'-'\<close> and \<^verbatim>\<open>'.'\<close>.\<close>

definition colon :: nat where
  "colon = 58"

definition hyphen :: nat where
  "hyphen = 45"

definition full_stop :: nat where
  "full_stop = 46"

text \<open>
  \<^verbatim>\<open>str.lower\<close> maps every code point through the full lowercase mapping of
  the Unicode character database, which may give several code points, except
  the capital sigma (931), which becomes the final sigma (962) or the small
  sigma (963) by its context. The tables of the database are not part of the
  source: they are a parameter.
\<close>

record unicode_db =
  to_lower_full :: "nat \<Rightarrow> nat list"
  is_cased :: "nat \<Rightarrow> bool"
  is_case_ignorable :: "nat \<Rightarrow> bool"

text \<open>
  The capital sigma at some position, with the code points to its left
  (nearest first) and to its right: it is final when a cased code point comes
  before it, over case-ignorable ones only, and no cased code point comes
  after it in the same way.
\<close>

definition handle_capital_sigma :: "unicode_db \<Rightarrow> ustring \<Rightarrow> ustring \<Rightarrow> nat" where
  "handle_capital_sigma db seen todo =
     (let final_sigma =
            (case dropWhile (is_case_ignorable db) seen of
               [] \<Rightarrow> False
             | c # cs \<Rightarrow> is_cased db c);
          final_sigma =
            (if final_sigma
             then (case dropWhile (is_case_ignorable db) todo of
                     [] \<Rightarrow> True
                   | c # cs \<Rightarrow> \<not> is_cased db c)
             else False)
      in if final_sigma then 962 else 963)"

text \<open>The loop over the positions of the string: \<open>seen\<close> holds the code points to
  the left of the position, \<open>todo\<close> those to its right.\<close>

fun lower_from :: "unicode_db \<Rightarrow> ustring \<Rightarrow> ustring \<Rightarrow> ustring" where
  "lower_from db seen [] = []"
| "lower_from db seen (c # todo) =
     (if c = 931 then [handle_capital_sigma db seen todo] else to_lower_full db c)
       @ lower_from db (c # seen) todo"

definition lower :: "unicode_db \<Rightarrow> ustring \<Rightarrow> ustring" where
  "lower db s = lower_from db [] s"

text \<open>\<^verbatim>\<open>s.replace(old, new)\<close> for a one-character \<^verbatim>\<open>old\<close>.\<close>

definition replace :: "nat \<Rightarrow> ustring \<Rightarrow> ustring \<Rightarrow> ustring" where
  "replace old new s = concat (map (\<lambda>c. if c = old then new else [c]) s)"

text \<open>\<^verbatim>\<open>s[i:j]\<close> for \<^verbatim>\<open>0 <= i <= j\<close>; a slice past the end is cut short, as in Python.\<close>

definition slice :: "ustring \<Rightarrow> nat \<Rightarrow> nat \<Rightarrow> ustring" where
  "slice s i j = take (j - i) (drop i s)"

fun join :: "ustring \<Rightarrow> ustring list \<Rightarrow> ustring" where
  "join sep [] = []"
| "join sep [x] = x"
| "join sep (x # y # ys) = x @ sep @ join sep (y # ys)"

subsection \<open>Python values\<close>

datatype exn = ValueError | RuntimeError | AttributeError | RequestError

text \<open>
  The values a custom field of a registry record can hold. Floats, lists and
  dictionaries behave like strings in every test the source makes (they are
  not instances of \<^verbatim>\<open>int\<close>), so they are not listed separately.
\<close>

datatype pyval = PyNone | PyBool bool | PyInt int | PyStr ustring

fun truthy :: "pyval \<Rightarrow> bool" where
  "truthy PyNone = False"
| "truthy (PyBool b) = b"
| "truthy (PyInt n) = (n \<noteq> 0)"
| "truthy (PyStr s) = (s \<noteq> [])"

text \<open>\<^verbatim>\<open>isinstance(v, int)\<close>: in Python \<^verbatim>\<open>bool\<close> is a subclass of \<^verbatim>\<open>int\<close>.\<close>

fun isinstance_int :: "pyval \<Rightarrow> bool" where
  "isinstance_int (PyInt n) = True"
| "isinstance_int (PyBool b) = True"
| "isinstance_int v = False"

text \<open>The integer an \<^verbatim>\<open>int\<close> instance stands for (\<^verbatim>\<open>True\<close> is 1); only read
  under the guard \<^const>\<open>isinstance_int\<close>.\<close>

fun int_value :: "pyval \<Rightarrow> int" where
  "int_value (PyInt n) = n"
| "int_value (PyBool b) = (if b then 1 else 0)"
| "int_value v = 0"

subsection \<open>Configuration\<close>

definition DEFAULT_START_PORT :: int where
  "DEFAULT_START_PORT = 10001"

definition CUSTOM_FIELD_NAME :: ustring where
  "CUSTOM_FIELD_NAME = str ''automation_proxy_port''"

subsection \<open>\<^verbatim>\<open>normalize_mac\<close>\<close>

definition normalize_mac :: "unicode_db \<Rightarrow> ustring \<Rightarrow> exn + ustring" where
  "normalize_mac db mac =
     (let mac = lower db mac;
          mac_clean = replace full_stop [] (replace hyphen [] (replace colon [] mac))
      in if length mac_clean \<noteq> 12 then Inl ValueError
         else Inr (join [colon] (map (\<lambda>i. slice mac_clean i (i + 2)) [0, 2, 4, 6, 8, 10])))"

text \<open>A hexadecimal digit of a lowercased string, in the words of the specification
  (the source has no such test).\<close>

definition is_hex_digit :: "nat \<Rightarrow> bool" where
  "is_hex_digit c = (c \<in> set (str ''0123456789abcdef''))"

subsection \<open>The registry\<close>

text \<open>
  The records of the registry that the source reads. An interface refers to
  its device by the device's id; a MAC-address object refers to the interface
  it is assigned to. A missing or null attribute is \<open>None\<close>. The source calls
  \<^verbatim>\<open>device.name.lower()\<close>, so a device name is a string.
\<close>

record interface =
  if_mac_address :: "ustring option"
  if_device :: "nat option"

record mac_address_object =
  mo_mac_address :: ustring
  mo_assigned_object :: "interface option"

record device =
  dev_id :: nat
  dev_name :: ustring
  dev_device_type :: ustring
  dev_role :: ustring
  dev_site :: ustring
  dev_status :: ustring
  custom_fields :: "(ustring \<times> pyval) list"

text \<open>The calls the source makes on the registry client.\<close>

datatype api_call =
  MacAddressesFilter | InterfacesFilter | DevicesGet | DevicesFilter | DevicesAll
  | DevicesCreate | DeviceSave

text \<open>The registry: its three tables, and for each call the exception it raises,
  if any.\<close>

record netbox =
  mac_addresses :: "mac_address_object list"
  interfaces :: "interface list"
  devices :: "device list"
  faults :: "(api_call \<times> exn) list"

definition api_fault :: "netbox \<Rightarrow> api_call \<Rightarrow> exn option" where
  "api_fault r c = map_of (faults r) c"

text \<open>\<^verbatim>\<open>custom_fields.get(key)\<close>: \<^verbatim>\<open>None\<close> when the key is missing.\<close>

definition cf_get :: "(ustring \<times> pyval) list \<Rightarrow> ustring \<Rightarrow> pyval" where
  "cf_get cf k = (case map_of cf k of None \<Rightarrow> PyNone | Some v \<Rightarrow> v)"

definition mac_addresses_filter :: "netbox \<Rightarrow> ustring \<Rightarrow> exn + mac_address_object list" where
  "mac_addresses_filter r mac =
     (case api_fault r MacAddressesFilter of
        Some e \<Rightarrow> Inl e
      | None \<Rightarrow> Inr (filter (\<lambda>m. mo_mac_address m = mac) (mac_addresses r)))"

definition interfaces_filter :: "netbox \<Rightarrow> ustring \<Rightarrow> exn + interface list" where
  "interfaces_filter r mac =
     (case api_fault r InterfacesFilter of
        Some e \<Rightarrow> Inl e
      | None \<Rightarrow> Inr (filter (\<lambda>i. if_mac_address i = Some mac) (interfaces r)))"

definition devices_get :: "netbox \<Rightarrow> nat \<Rightarrow> exn + device option" where
  "devices_get r i =
     (case api_fault r DevicesGet of
        Some e \<Rightarrow> Inl e
      | None \<Rightarrow> Inr (find (\<lambda>d. dev_id d = i) (devices r)))"

definition devices_filter_cf_mac_address :: "netbox \<Rightarrow> ustring \<Rightarrow> exn + device list" where
  "devices_filter_cf_mac_address r mac =
     (case api_fault r DevicesFilter of
        Some e \<Rightarrow> Inl e
      | None \<Rightarrow>
          Inr (filter (\<lambda>d. cf_get (custom_fields d) (str ''mac_address'') = PyStr mac)
                 (devices r)))"

definition devices_all :: "netbox \<Rightarrow> exn + device list" where
  "devices_all r =
     (case api_fault r DevicesAll of Some e \<Rightarrow> Inl e | None \<Rightarrow> Inr (devices r))"

text \<open>\<^verbatim>\<open>device.save()\<close> writes the custom fields of the local object to the record
  with the same id.\<close>

definition device_save :: "netbox \<Rightarrow> device \<Rightarrow> exn + netbox" where
  "device_save r d =
     (case api_fault r DeviceSave of
        Some e \<Rightarrow> Inl e
      | None \<Rightarrow>
          Inr (r\<lparr>devices :=
                 map (\<lambda>x. if dev_id x = dev_id d then x\<lparr>custom_fields := custom_fields d\<rparr> else x)
                   (devices r)\<rparr>))"

text \<open>\<^verbatim>\<open>devices.create(...)\<close> appends a record under an id the registry has not used.\<close>

definition devices_create ::
  "netbox \<Rightarrow> ustring \<Rightarrow> ustring \<Rightarrow> ustring \<Rightarrow> ustring \<Rightarrow> ustring \<Rightarrow> (ustring \<times> pyval) list
     \<Rightarrow> exn + netbox" where
  "devices_create r nm dt rl st stat cf =
     (case api_fault r DevicesCreate of
        Some e \<Rightarrow> Inl e
      | None \<Rightarrow>
          Inr (r\<lparr>devices := devices r @
                 [\<lparr>dev_id = Suc (fold max (map dev_id (devices r)) 0), dev_name = nm,
                   dev_device_type = dt, dev_role = rl, dev_site = st, dev_status = stat,
                   custom_fields = cf\<rparr>]\<rparr>))"

subsection \<open>\<^verbatim>\<open>get_max_assigned_port\<close>\<close>

text \<open>The test \<^verbatim>\<open>port and isinstance(port, int)\<close>, made by the allocator and by
  \<^verbatim>\<open>request_port\<close>.\<close>

definition has_port :: "pyval \<Rightarrow> bool" where
  "has_port port = (truthy port \<and> isinstance_int port)"

fun max_port_loop :: "device list \<Rightarrow> int \<Rightarrow> int" where
  "max_port_loop [] max_port = max_port"
| "max_port_loop (device # rest) max_port =
     (let port = cf_get (custom_fields device) CUSTOM_FIELD_NAME
      in if has_port port then max_port_loop rest (max max_port (int_value port))
         else max_port_loop rest max_port)"

definition get_max_assigned_port :: "netbox option \<Rightarrow> exn + int" where
  "get_max_assigned_port nb =
     (case nb of
        None \<Rightarrow> Inl RuntimeError
      | Some r \<Rightarrow>
          (case devices_all r of
             Inl e \<Rightarrow> Inl e
           | Inr ds \<Rightarrow> Inr (max_port_loop ds (DEFAULT_START_PORT - 1))))"

subsection \<open>\<^verbatim>\<open>find_device_by_mac\<close>\<close>

text \<open>
  Each loop body of the resolver either returns from the function or goes on:
  \<open>Inr (Some res)\<close> is \<^verbatim>\<open>return res\<close> (where \<open>res\<close> is what \<^verbatim>\<open>devices.get\<close> gave,
  possibly \<^verbatim>\<open>None\<close>), \<open>Inr None\<close> is a loop that ended without returning.
\<close>

fun mac_objects_loop :: "netbox \<Rightarrow> mac_address_object list \<Rightarrow> exn + device option option" where
  "mac_objects_loop r [] = Inr None"
| "mac_objects_loop r (mac_obj # rest) =
     (case mo_assigned_object mac_obj of
        None \<Rightarrow> mac_objects_loop r rest
      | Some interface \<Rightarrow>
          (case if_device interface of
             None \<Rightarrow> mac_objects_loop r rest
           | Some i \<Rightarrow>
               (case devices_get r i of Inl e \<Rightarrow> Inl e | Inr res \<Rightarrow> Inr (Some res))))"

text \<open>The first \<^verbatim>\<open>try\<close> block; \<^verbatim>\<open>except AttributeError\<close> goes on to the next one.\<close>

definition mac_object_lookup :: "netbox \<Rightarrow> ustring \<Rightarrow> exn + device option option" where
  "mac_object_lookup r mac =
     (case (case mac_addresses_filter r mac of
              Inl e \<Rightarrow> Inl e
            | Inr mac_objs \<Rightarrow> mac_objects_loop r mac_objs) of
        Inl e \<Rightarrow> (if e = AttributeError then Inr None else Inl e)
      | Inr out \<Rightarrow> Inr out)"

fun interfaces_loop :: "netbox \<Rightarrow> interface list \<Rightarrow> exn + device option option" where
  "interfaces_loop r [] = Inr None"
| "interfaces_loop r (interface # rest) =
     (case if_device interface of
        None \<Rightarrow> interfaces_loop r rest
      | Some i \<Rightarrow> (case devices_get r i of Inl e \<Rightarrow> Inl e | Inr res \<Rightarrow> Inr (Some res)))"

text \<open>The second \<^verbatim>\<open>try\<close> block; \<^verbatim>\<open>except Exception\<close> logs and goes on.\<close>

definition interface_lookup :: "netbox \<Rightarrow> ustring \<Rightarrow> device option option" where
  "interface_lookup r mac =
     (case (case interfaces_filter r mac of
              Inl e \<Rightarrow> Inl e
            | Inr ifaces \<Rightarrow> interfaces_loop r ifaces) of
        Inl e \<Rightarrow> None
      | Inr out \<Rightarrow> out)"

definition custom_field_lookup :: "netbox \<Rightarrow> ustring \<Rightarrow> exn + device option" where
  "custom_field_lookup r mac =
     (case devices_filter_cf_mac_address r mac of
        Inl e \<Rightarrow> Inl e
      | Inr [] \<Rightarrow> Inr None
      | Inr (device # rest) \<Rightarrow> Inr (Some device))"

definition name_matches :: "unicode_db \<Rightarrow> ustring \<Rightarrow> device \<Rightarrow> bool" where
  "name_matches db mac_clean device =
     sublist mac_clean (replace hyphen [] (replace colon [] (lower db (dev_name device))))"

definition name_lookup :: "unicode_db \<Rightarrow> netbox \<Rightarrow> ustring \<Rightarrow> exn + device option" where
  "name_lookup db r mac =
     (let mac_clean = replace colon [] mac
      in case devices_all r of
           Inl e \<Rightarrow> Inl e
         | Inr ds \<Rightarrow> Inr (find (name_matches db mac_clean) ds))"

text \<open>The function from its third block on (custom field, then name matching),
  and from its second block on.\<close>

definition resolve_from_custom_field :: "unicode_db \<Rightarrow> netbox \<Rightarrow> ustring \<Rightarrow> exn + device option" where
  "resolve_from_custom_field db r mac =
     (case custom_field_lookup r mac of
        Inl e \<Rightarrow> Inl e
      | Inr (Some device) \<Rightarrow> Inr (Some device)
      | Inr None \<Rightarrow> name_lookup db r mac)"

definition resolve_from_interfaces :: "unicode_db \<Rightarrow> netbox \<Rightarrow> ustring \<Rightarrow> exn + device option" where
  "resolve_from_interfaces db r mac =
     (case interface_lookup r mac of
        Some res \<Rightarrow> Inr res
      | None \<Rightarrow> resolve_from_custom_field db r mac)"

definition find_device_by_mac :: "unicode_db \<Rightarrow> netbox option \<Rightarrow> ustring \<Rightarrow> exn + device option" where
  "find_device_by_mac db nb mac =
     (case nb of
        None \<Rightarrow> Inl RuntimeError
      | Some r \<Rightarrow>
          (case mac_object_lookup r mac of
             Inl e \<Rightarrow> Inl e
           | Inr (Some res) \<Rightarrow> Inr res
           | Inr None \<Rightarrow> resolve_from_interfaces db r mac))"

subsection \<open>The endpoints\<close>

text \<open>
  What a request ends with when it does not return a body: an
  \<^verbatim>\<open>HTTPException\<close> with its status code, or an exception nobody caught, which
  the global handler answers with status 500.
\<close>

datatype failure = HTTPException nat | Unhandled exn

fun status_code :: "failure + 'a \<Rightarrow> nat" where
  "status_code (Inr body) = 200"
| "status_code (Inl (HTTPException n)) = n"
| "status_code (Inl (Unhandled e)) = 500"

record health_response =
  hr_status :: ustring
  netbox_connected :: bool
  hr_timestamp :: ustring

text \<open>The clock is a parameter: \<open>now\<close> is \<^verbatim>\<open>datetime.utcnow().isoformat()\<close>.\<close>

definition health_check :: "netbox option \<Rightarrow> ustring \<Rightarrow> failure + health_response" where
  "health_check nb now =
     Inr \<lparr>hr_status = str ''healthy'',
          netbox_connected = (case nb of None \<Rightarrow> False | Some r \<Rightarrow> True),
          hr_timestamp = now\<rparr>"

record port_response =
  pr_mac :: ustring
  pr_port :: int
  pr_existing :: bool
  pr_device_name :: "ustring option"
  pr_timestamp :: ustring

text \<open>The writing half of the \<^verbatim>\<open>try\<close> block of \<^verbatim>\<open>request_port\<close>: update the
  resolved record, or create the pending one.\<close>

definition write_assignment ::
  "netbox \<Rightarrow> ustring \<Rightarrow> ustring \<Rightarrow> device option \<Rightarrow> int
     \<Rightarrow> (failure + port_response) \<times> netbox option" where
  "write_assignment r now mac_normalized existing_device new_port =
     (let device_name = str ''probe-'' @ replace colon [] mac_normalized
      in case existing_device of
           Some d \<Rightarrow>
             (case device_save r
                     (d\<lparr>custom_fields :=
                          AList.update CUSTOM_FIELD_NAME (PyInt new_port) (custom_fields d)\<rparr>) of
                Inl e \<Rightarrow> (Inl (HTTPException 500), Some r)
              | Inr r' \<Rightarrow>
                  (Inr \<lparr>pr_mac = mac_normalized, pr_port = new_port, pr_existing = False,
                        pr_device_name = Some (dev_name d), pr_timestamp = now\<rparr>, Some r'))
         | None \<Rightarrow>
             (case devices_create r device_name (str ''network-probe'') (str ''network-probe'')
                     (str ''pending'') (str ''planned'') [(CUSTOM_FIELD_NAME, PyInt new_port)] of
                Inl e \<Rightarrow> (Inl (HTTPException 500), Some r)
              | Inr r' \<Rightarrow>
                  (Inr \<lparr>pr_mac = mac_normalized, pr_port = new_port, pr_existing = False,
                        pr_device_name = Some device_name, pr_timestamp = now\<rparr>, Some r')))"

definition request_port ::
  "unicode_db \<Rightarrow> netbox option \<Rightarrow> ustring \<Rightarrow> ustring
     \<Rightarrow> (failure + port_response) \<times> netbox option" where
  "request_port db nb now mac =
     (case normalize_mac db mac of
        Inl e \<Rightarrow> (Inl (HTTPException 400), nb)
      | Inr mac_normalized \<Rightarrow>
          (case nb of
             None \<Rightarrow> (Inl (HTTPException 503), nb)
           | Some r \<Rightarrow>
               (case find_device_by_mac db nb mac_normalized of
                  Inl e \<Rightarrow> (Inl (Unhandled e), nb)
                | Inr device \<Rightarrow>
                    (case (case device of
                             None \<Rightarrow> None
                           | Some d \<Rightarrow>
                               (let existing_port = cf_get (custom_fields d) CUSTOM_FIELD_NAME
                                in if has_port existing_port then Some (d, existing_port)
                                   else None)) of
                       Some (d, existing_port) \<Rightarrow>
                         (Inr \<lparr>pr_mac = mac_normalized, pr_port = int_value existing_port,
                               pr_existing = True, pr_device_name = Some (dev_name d),
                               pr_timestamp = now\<rparr>, nb)
                     | None \<Rightarrow>
                         (case get_max_assigned_port nb of
                            Inl e \<Rightarrow> (Inl (HTTPException 500), nb)
                          | Inr max_port \<Rightarrow>
                              write_assignment r now mac_normalized device (max_port + 1))))))"

subsection \<open>Runs of the service\<close>

text \<open>
  \<^verbatim>\<open>request_port\<close> is a coroutine whose body has no \<^verbatim>\<open>await\<close>, and the service
  is started in one process (\<^verbatim>\<open>uvicorn.run\<close> at the end of the file): the event
  loop runs a request to its end before it starts the next one. A run of the
  service is a list of requests, each with its clock reading and its MAC
  parameter, in the order in which they are served.
\<close>

fun serve ::
  "unicode_db \<Rightarrow> (ustring \<times> ustring) list \<Rightarrow> netbox option
     \<Rightarrow> (failure + port_response) list \<times> netbox option" where
  "serve db [] nb = ([], nb)"
| "serve db ((now, mac) # reqs) nb =
     (case request_port db nb now mac of
        (res, nb1) \<Rightarrow> (case serve db reqs nb1 of (ress, nb2) \<Rightarrow> (res # ress, nb2)))"

subsection \<open>Notions used in the statements\<close>

text \<open>
  Two facts of the Unicode character database that the statements about
  lowercasing rest on. The first: the ASCII code points are lowercased as in
  ASCII. The second: lowercasing gives code points that lowercasing leaves
  as they are (and that are not the capital sigma).
\<close>

definition ascii_lower :: "nat \<Rightarrow> nat" where
  "ascii_lower c = (if 65 \<le> c \<and> c \<le> 90 then c + 32 else c)"

definition ascii_lowering :: "unicode_db \<Rightarrow> bool" where
  "ascii_lowering db = (\<forall>c<128. to_lower_full db c = [ascii_lower c])"

definition stable :: "unicode_db \<Rightarrow> nat \<Rightarrow> bool" where
  "stable db c = (c \<noteq> 931 \<and> to_lower_full db c = [c])"

definition lowering_stable :: "unicode_db \<Rightarrow> bool" where
  "lowering_stable db =
     ((\<forall>c. \<forall>d \<in> set (to_lower_full db c). stable db d) \<and> stable db 962 \<and> stable db 963)"

definition ascii :: "ustring \<Rightarrow> bool" where
  "ascii s = list_all (\<lambda>c. c < 128) s"

text \<open>The defined port attributes of a list of records, in the order of the records.\<close>

definition assigned_ports :: "device list \<Rightarrow> int list" where
  "assigned_ports ds =
     map int_value (filter has_port (map (\<lambda>d. cf_get (custom_fields d) CUSTOM_FIELD_NAME) ds))"

text \<open>The ports that the answers of a run report as newly allocated.\<close>

fun allocated_ports :: "(failure + port_response) list \<Rightarrow> int list" where
  "allocated_ports [] = []"
| "allocated_ports (Inl e # rest) = allocated_ports rest"
| "allocated_ports (Inr a # rest) =
     (if pr_existing a then allocated_ports rest else pr_port a # allocated_ports rest)"


text \<open>The device ids that a list of MAC-address objects, or of interfaces, leads
  to, in the order of the list.\<close>

definition mac_object_links :: "mac_address_object list \<Rightarrow> nat list" where
  "mac_object_links objs =
     List.map_filter
       (\<lambda>m. case mo_assigned_object m of None \<Rightarrow> None | Some i \<Rightarrow> if_device i) objs"

definition interface_links :: "interface list \<Rightarrow> nat list" where
  "interface_links ifs = List.map_filter if_device ifs"

text \<open>The pending record that \<^verbatim>\<open>request_port\<close> creates for a MAC address and a port.\<close>

definition pending_device :: "netbox \<Rightarrow> ustring \<Rightarrow> int \<Rightarrow> device" where
  "pending_device r mac p =
     \<lparr>dev_id = Suc (fold max (map dev_id (devices r)) 0),
      dev_name = str ''probe-'' @ replace colon [] mac,
      dev_device_type = str ''network-probe'', dev_role = str ''network-probe'',
      dev_site = str ''pending'', dev_status = str ''planned'',
      custom_fields = [(CUSTOM_FIELD_NAME, PyInt p)]\<rparr>"

text \<open>The device table after the port attribute of record \<open>d\<close> has been set to \<open>p\<close>.\<close>

definition with_port :: "device \<Rightarrow> int \<Rightarrow> device list \<Rightarrow> device list" where
  "with_port d p ds =
     map (\<lambda>x. if dev_id x = dev_id d
               then x\<lparr>custom_fields := AList.update CUSTOM_FIELD_NAME (PyInt p) (custom_fields d)\<rparr>
               else x) ds"

subsection \<open>Examples\<close>

text \<open>
  An excerpt of the Unicode character database: ASCII, the Latin-1 capital
  letters, the capital I with dot above (304), which lowercases to two code
  points, and the sigmas.
\<close>

definition sample_db :: unicode_db where
  "sample_db =
     \<lparr>to_lower_full =
        (\<lambda>c. if 65 \<le> c \<and> c \<le> 90 then [c + 32]
              else if 192 \<le> c \<and> c \<le> 222 \<and> c \<noteq> 215 then [c + 32]
              else if c = 304 then [105, 775]
              else if c = 931 then [963]
              else [c]),
      is_cased =
        (\<lambda>c. (65 \<le> c \<and> c \<le> 90) \<or> (97 \<le> c \<and> c \<le> 122) \<or>
              (192 \<le> c \<and> c \<le> 255 \<and> c \<noteq> 215 \<and> c \<noteq> 247) \<or>
              c = 304 \<or> c = 931 \<or> c = 962 \<or> c = 963),
      is_case_ignorable =
        (\<lambda>c. c \<in> set [39, 46, 58, 94, 96, 168, 173, 175, 180, 183, 184, 775])\<rparr>"

definition empty_registry :: netbox where
  "empty_registry = \<lparr>mac_addresses = [], interfaces = [], devices = [], faults = []\<rparr>"

definition probe_record :: "nat \<Rightarrow> ustring \<Rightarrow> (ustring \<times> pyval) list \<Rightarrow> device" where
  "probe_record i nm cf =
     \<lparr>dev_id = i, dev_name = nm, dev_device_type = str ''network-probe'',
      dev_role = str ''network-probe'', dev_site = str ''pending'', dev_status = str ''planned'',
      custom_fields = cf\<rparr>"

definition registry_of :: "device list \<Rightarrow> (api_call \<times> exn) list \<Rightarrow> netbox" where
  "registry_of ds fs = \<lparr>mac_addresses = [], interfaces = [], devices = ds, faults = fs\<rparr>"

text \<open>Three provisioned probes, with ports 10001, 10002 and 10005.\<close>

definition three_probes :: "device list" where
  "three_probes =
     [probe_record 1 (str ''probe-020000000001'') [(CUSTOM_FIELD_NAME, PyInt 10001)],
      probe_record 2 (str ''probe-020000000002'') [(CUSTOM_FIELD_NAME, PyInt 10002)],
      probe_record 3 (str ''probe-020000000003'') [(CUSTOM_FIELD_NAME, PyInt 10005)]]"

text \<open>The three probes and a pre-registered record that has no port yet.\<close>

definition unprovisioned :: "device list" where
  "unprovisioned = three_probes @ [probe_record 4 (str ''Probe-AA:BB:CC:DD:EE:FF'') []]"

text \<open>The three probes and a record whose port attribute holds the value \<open>v\<close>.\<close>

definition mislabelled :: "pyval \<Rightarrow> device list" where
  "mislabelled v =
     three_probes @ [probe_record 4 (str ''probe-aabbccddeeff'') [(CUSTOM_FIELD_NAME, v)]]"

text \<open>A registry, with the three probes, on which every call raises a request error.\<close>

definition dead_registry :: netbox where
  "dead_registry =
     registry_of three_probes
       [(MacAddressesFilter, RequestError), (InterfacesFilter, RequestError),
        (DevicesGet, RequestError), (DevicesFilter, RequestError), (DevicesAll, RequestError),
        (DevicesCreate, RequestError), (DeviceSave, RequestError)]"

text \<open>A registry whose MAC-address object and interface for \<open>aa:bb:cc:dd:ee:ff\<close>
  lead to the device with id 3, and a device that carries the address in its
  custom field.\<close>

definition linked_registry :: "(api_call \<times> exn) list \<Rightarrow> netbox" where
  "linked_registry fs =
     \<lparr>mac_addresses =
        [\<lparr>mo_mac_address = str ''aa:bb:cc:dd:ee:ff'',
          mo_assigned_object = Some \<lparr>if_mac_address = None, if_device = Some 3\<rparr>\<rparr>],
      interfaces = [\<lparr>if_mac_address = Some (str ''aa:bb:cc:dd:ee:ff''), if_device = Some 3\<rparr>],
      devices =
        three_probes @
          [probe_record 4 (str ''edge-probe-7'')
             [(str ''mac_address'', PyStr (str ''aa:bb:cc:dd:ee:ff'')),
              (CUSTOM_FIELD_NAME, PyInt 10009)]],
      faults = fs\<rparr>"

section \<open>Lowercasing\<close>

lemma handle_capital_sigma_cases:
  "handle_capital_sigma db seen todo = 962 \<or> handle_capital_sigma db seen todo = 963"
  by (simp add: handle_capital_sigma_def Let_def)

lemma lower_from_stable: "list_all (stable db) s \<Longrightarrow> lower_from db seen s = s"
  by (induction s arbitrary: seen) (simp_all add: stable_def)

lemma lower_stable: "list_all (stable db) s \<Longrightarrow> lower db s = s"
  by (simp add: lower_def lower_from_stable)

lemma lower_from_gives_stable:
  assumes "lowering_stable db"
  shows "list_all (stable db) (lower_from db seen s)"
proof (induction s arbitrary: seen)
  case Nil
  show ?case by simp
next
  case (Cons c s)
  have sigma: "stable db (handle_capital_sigma db seen s)"
    using handle_capital_sigma_cases [of db seen s] assms by (auto simp: lowering_stable_def)
  have full: "list_all (stable db) (to_lower_full db c)"
    using assms by (simp add: lowering_stable_def list_all_iff)
  from sigma full Cons.IH [of "c # seen"] show ?case
    by simp
qed

lemma lower_gives_stable: "lowering_stable db \<Longrightarrow> list_all (stable db) (lower db s)"
  by (simp add: lower_def lower_from_gives_stable)

lemma lower_from_ascii:
  "ascii_lowering db \<Longrightarrow> ascii s \<Longrightarrow> lower_from db seen s = map ascii_lower s"
  by (induction s arbitrary: seen) (simp_all add: ascii_def ascii_lowering_def)

lemma lower_ascii: "ascii_lowering db \<Longrightarrow> ascii s \<Longrightarrow> lower db s = map ascii_lower s"
  by (simp add: lower_def lower_from_ascii)

lemma ascii_stable:
  "ascii_lowering db \<Longrightarrow> c < 128 \<Longrightarrow> ascii_lower c = c \<Longrightarrow> stable db c"
  by (auto simp: ascii_lowering_def stable_def)

lemma colon_stable: "ascii_lowering db \<Longrightarrow> stable db colon"
  by (rule ascii_stable) (simp_all add: colon_def ascii_lower_def)

lemma sample_db_ascii: "ascii_lowering sample_db"
  by (simp add: ascii_lowering_def sample_db_def ascii_lower_def)

lemma sample_db_stable: "lowering_stable sample_db"
  by (auto simp: lowering_stable_def stable_def sample_db_def split: if_splits)

lemma lower_sample: "ascii_lowering db \<Longrightarrow> ascii s \<Longrightarrow> lower db s = lower sample_db s"
  by (simp add: lower_ascii sample_db_ascii)

section \<open>The MAC normaliser\<close>

lemma replace_Nil: "replace old [] s = filter (\<lambda>c. c \<noteq> old) s"
  by (induction s) (simp_all add: replace_def)

lemma mac_clean_filter:
  "replace full_stop [] (replace hyphen [] (replace colon [] s)) =
   filter (\<lambda>c. c \<noteq> colon \<and> c \<noteq> hyphen \<and> c \<noteq> full_stop) s"
  by (induction s) (simp_all add: replace_Nil)

lemma length_12_cases:
  assumes "length (xs::'a list) = 12"
  obtains a b c d e f g h i j k l where "xs = [a, b, c, d, e, f, g, h, i, j, k, l]"
proof -
  from assms have "length xs = Suc (Suc (Suc (Suc (Suc (Suc (Suc (Suc (Suc (Suc (Suc (Suc 0)))))))))))"
    by simp
  then show thesis
    by (auto simp: length_Suc_conv intro: that)
qed

lemma colons_12:
  "join [colon] (map (\<lambda>i. slice [a, b, c, d, e, f, g, h, i', j, k, l] i (i + 2)) [0, 2, 4, 6, 8, 10]) =
   [a, b, colon, c, d, colon, e, f, colon, g, h, colon, i', j, colon, k, l]"
  by (simp add: slice_def)

text \<open>What the source computes, code point by code point: the three separators
  are filtered out of the lowercased input, and twelve remaining code points
  are grouped in pairs.\<close>

lemma normalize_mac_char:
  "normalize_mac db mac =
     (let c = filter (\<lambda>x. x \<noteq> colon \<and> x \<noteq> hyphen \<and> x \<noteq> full_stop) (lower db mac)
      in if length c = 12
         then Inr [c ! 0, c ! 1, colon, c ! 2, c ! 3, colon, c ! 4, c ! 5, colon,
                   c ! 6, c ! 7, colon, c ! 8, c ! 9, colon, c ! 10, c ! 11]
         else Inl ValueError)"
proof -
  define c where "c = filter (\<lambda>x. x \<noteq> colon \<and> x \<noteq> hyphen \<and> x \<noteq> full_stop) (lower db mac)"
  have nm: "normalize_mac db mac =
      (if length c \<noteq> 12 then Inl ValueError
       else Inr (join [colon] (map (\<lambda>i. slice c i (i + 2)) [0, 2, 4, 6, 8, 10])))"
    unfolding normalize_mac_def Let_def mac_clean_filter c_def ..
  show ?thesis
  proof (cases "length c = 12")
    case True
    then obtain a b c' d e f g h i j k l where c: "c = [a, b, c', d, e, f, g, h, i, j, k, l]"
      by (rule length_12_cases)
    have "normalize_mac db mac = Inr (join [colon] (map (\<lambda>i. slice c i (i + 2)) [0, 2, 4, 6, 8, 10]))"
      using True nm by simp
    also have "join [colon] (map (\<lambda>i. slice c i (i + 2)) [0, 2, 4, 6, 8, 10]) =
        [a, b, colon, c', d, colon, e, f, colon, g, h, colon, i, j, colon, k, l]"
      unfolding c by (rule colons_12)
    finally show ?thesis
      unfolding c_def [symmetric] Let_def using True by (simp add: c)
  next
    case False
    then show ?thesis
      unfolding c_def [symmetric] Let_def using nm by simp
  qed
qed

lemma normalize_mac_shape:
  assumes "lowering_stable db" and "normalize_mac db x = Inr y"
  obtains a b c d e f g h i j k l where
    "y = [a, b, colon, c, d, colon, e, f, colon, g, h, colon, i, j, colon, k, l]"
    "\<forall>z \<in> set [a, b, c, d, e, f, g, h, i, j, k, l].
        z \<noteq> colon \<and> z \<noteq> hyphen \<and> z \<noteq> full_stop \<and> stable db z"
proof -
  define c where "c = filter (\<lambda>x. x \<noteq> colon \<and> x \<noteq> hyphen \<and> x \<noteq> full_stop) (lower db x)"
  have "list_all (stable db) (lower db x)"
    using assms(1) by (rule lower_gives_stable)
  then have mem: "\<forall>z \<in> set c. z \<noteq> colon \<and> z \<noteq> hyphen \<and> z \<noteq> full_stop \<and> stable db z"
    by (auto simp: c_def list_all_iff)
  from assms(2) have len: "length c = 12"
    unfolding normalize_mac_char c_def [symmetric] Let_def by (simp split: if_splits)
  then obtain a b c' d e f g h i j k l where c: "c = [a, b, c', d, e, f, g, h, i, j, k, l]"
    by (rule length_12_cases)
  from assms(2) len have "y = [c ! 0, c ! 1, colon, c ! 2, c ! 3, colon, c ! 4, c ! 5, colon,
                   c ! 6, c ! 7, colon, c ! 8, c ! 9, colon, c ! 10, c ! 11]"
    unfolding normalize_mac_char c_def [symmetric] Let_def by simp
  then have "y = [a, b, colon, c', d, colon, e, f, colon, g, h, colon, i, j, colon, k, l]"
    by (simp add: c)
  moreover from mem have "\<forall>z \<in> set [a, b, c', d, e, f, g, h, i, j, k, l].
        z \<noteq> colon \<and> z \<noteq> hyphen \<and> z \<noteq> full_stop \<and> stable db z"
    unfolding c .
  ultimately show thesis by (rule that)
qed

lemma normalize_mac_idem:
  assumes "ascii_lowering db" and "lowering_stable db" and "normalize_mac db x = Inr y"
  shows "normalize_mac db y = Inr y"
proof -
  from assms(2,3) obtain a b c d e f g h i j k l where
    y: "y = [a, b, colon, c, d, colon, e, f, colon, g, h, colon, i, j, colon, k, l]"
    and mem: "\<forall>z \<in> set [a, b, c, d, e, f, g, h, i, j, k, l].
        z \<noteq> colon \<and> z \<noteq> hyphen \<and> z \<noteq> full_stop \<and> stable db z"
    by (rule normalize_mac_shape)
  have "list_all (stable db) y"
    using mem colon_stable [OF assms(1)] unfolding y by simp
  then have low: "lower db y = y"
    by (rule lower_stable)
  have sep: "colon \<noteq> hyphen" "colon \<noteq> full_stop"
    by (simp_all add: colon_def hyphen_def full_stop_def)
  from mem sep show ?thesis
    unfolding normalize_mac_char low unfolding y by simp
qed

lemma normalize_mac_sample:
  "ascii_lowering db \<Longrightarrow> ascii s \<Longrightarrow> normalize_mac db s = normalize_mac sample_db s"
  by (simp add: normalize_mac_def lower_sample)

lemma normalize_mac_examples:
  assumes "ascii_lowering db"
  shows "normalize_mac db (str ''aabbcc'') = Inl ValueError"
    and "normalize_mac db (str ''not-a-mac'') = Inl ValueError"
    and "normalize_mac db (str ''gggggggggggg'') = Inr (str ''gg:gg:gg:gg:gg:gg'')"
    and "normalize_mac db (str ''aa:bb:cc:dd:ee:ff'') = Inr (str ''aa:bb:cc:dd:ee:ff'')"
    and "normalize_mac db (str ''AA-BB-CC-DD-EE-FF'') = Inr (str ''aa:bb:cc:dd:ee:ff'')"
    and "normalize_mac db (str ''aabbccddeeff'') = Inr (str ''aa:bb:cc:dd:ee:ff'')"
proof -
  have a: "ascii (str ''aabbcc'')" "ascii (str ''not-a-mac'')" "ascii (str ''gggggggggggg'')"
    "ascii (str ''aa:bb:cc:dd:ee:ff'')" "ascii (str ''AA-BB-CC-DD-EE-FF'')"
    "ascii (str ''aabbccddeeff'')"
    by code_simp+
  have s: "normalize_mac sample_db (str ''aabbcc'') = Inl ValueError"
    "normalize_mac sample_db (str ''not-a-mac'') = Inl ValueError"
    "normalize_mac sample_db (str ''gggggggggggg'') = Inr (str ''gg:gg:gg:gg:gg:gg'')"
    "normalize_mac sample_db (str ''aa:bb:cc:dd:ee:ff'') = Inr (str ''aa:bb:cc:dd:ee:ff'')"
    "normalize_mac sample_db (str ''AA-BB-CC-DD-EE-FF'') = Inr (str ''aa:bb:cc:dd:ee:ff'')"
    "normalize_mac sample_db (str ''aabbccddeeff'') = Inr (str ''aa:bb:cc:dd:ee:ff'')"
    by code_simp+
  show "normalize_mac db (str ''aabbcc'') = Inl ValueError"
    by (simp only: normalize_mac_sample [OF assms a(1)] s(1))
  show "normalize_mac db (str ''not-a-mac'') = Inl ValueError"
    by (simp only: normalize_mac_sample [OF assms a(2)] s(2))
  show "normalize_mac db (str ''gggggggggggg'') = Inr (str ''gg:gg:gg:gg:gg:gg'')"
    by (simp only: normalize_mac_sample [OF assms a(3)] s(3))
  show "normalize_mac db (str ''aa:bb:cc:dd:ee:ff'') = Inr (str ''aa:bb:cc:dd:ee:ff'')"
    by (simp only: normalize_mac_sample [OF assms a(4)] s(4))
  show "normalize_mac db (str ''AA-BB-CC-DD-EE-FF'') = Inr (str ''aa:bb:cc:dd:ee:ff'')"
    by (simp only: normalize_mac_sample [OF assms a(5)] s(5))
  show "normalize_mac db (str ''aabbccddeeff'') = Inr (str ''aa:bb:cc:dd:ee:ff'')"
    by (simp only: normalize_mac_sample [OF assms a(6)] s(6))
qed

lemma request_port_invalid:
  "normalize_mac db mac = Inl e \<Longrightarrow> request_port db nb now mac = (Inl (HTTPException 400), nb)"
  by (simp add: request_port_def)

text \<open>
  Claim C4, as stated, fails: the normaliser does not strip every character that
  is not a hexadecimal digit. In \<open>gggggggggggg\<close> no hexadecimal digit remains,
  so the claim asks for a validation error; the source returns a MAC address.
\<close>

theorem normalize_mac_keeps_non_hex:
  "filter is_hex_digit (lower sample_db (str ''gggggggggggg'')) = [] \<and>
   normalize_mac sample_db (str ''gggggggggggg'') = Inr (str ''gg:gg:gg:gg:gg:gg'')"
  by code_simp

text \<open>
  Claim C4, amended: for every input string, \<^const>\<open>normalize_mac\<close> lowercases it
  and strips the three separators colon, hyphen and full stop (and no other
  character); it fails with \<^const>\<open>ValueError\<close>, its only exception, unless
  exactly 12 characters remain, and otherwise returns those 12 characters with
  a colon after every second one. \<^verbatim>\<open>request_port\<close> answers the exception with
  status 400 and leaves the registry alone. In particular \<open>aabbcc\<close> and
  \<open>not-a-mac\<close> yield \<^const>\<open>ValueError\<close>, and \<open>gggggggggggg\<close> is accepted.
\<close>

theorem normalize_mac_separators:
  "normalize_mac db mac =
     (let c = filter (\<lambda>x. x \<noteq> colon \<and> x \<noteq> hyphen \<and> x \<noteq> full_stop) (lower db mac)
      in if length c = 12
         then Inr [c ! 0, c ! 1, colon, c ! 2, c ! 3, colon, c ! 4, c ! 5, colon,
                   c ! 6, c ! 7, colon, c ! 8, c ! 9, colon, c ! 10, c ! 11]
         else Inl ValueError) \<and>
   (normalize_mac db mac = Inl ValueError \<longrightarrow>
      request_port db nb now mac = (Inl (HTTPException 400), nb) \<and>
      status_code (fst (request_port db nb now mac)) = 400) \<and>
   (ascii_lowering db \<longrightarrow>
      normalize_mac db (str ''aabbcc'') = Inl ValueError \<and>
      normalize_mac db (str ''not-a-mac'') = Inl ValueError \<and>
      normalize_mac db (str ''gggggggggggg'') = Inr (str ''gg:gg:gg:gg:gg:gg''))"
proof (intro conjI impI)
  show "normalize_mac db mac =
     (let c = filter (\<lambda>x. x \<noteq> colon \<and> x \<noteq> hyphen \<and> x \<noteq> full_stop) (lower db mac)
      in if length c = 12
         then Inr [c ! 0, c ! 1, colon, c ! 2, c ! 3, colon, c ! 4, c ! 5, colon,
                   c ! 6, c ! 7, colon, c ! 8, c ! 9, colon, c ! 10, c ! 11]
         else Inl ValueError)"
    by (rule normalize_mac_char)
next
  assume "normalize_mac db mac = Inl ValueError"
  then show "request_port db nb now mac = (Inl (HTTPException 400), nb)"
    by (rule request_port_invalid)
next
  assume "normalize_mac db mac = Inl ValueError"
  then have "request_port db nb now mac = (Inl (HTTPException 400), nb)"
    by (rule request_port_invalid)
  then show "status_code (fst (request_port db nb now mac)) = 400"
    by simp
next
  assume "ascii_lowering db"
  then show "normalize_mac db (str ''aabbcc'') = Inl ValueError"
    by (rule normalize_mac_examples)
next
  assume "ascii_lowering db"
  then show "normalize_mac db (str ''not-a-mac'') = Inl ValueError"
    by (rule normalize_mac_examples)
next
  assume "ascii_lowering db"
  then show "normalize_mac db (str ''gggggggggggg'') = Inr (str ''gg:gg:gg:gg:gg:gg'')"
    by (rule normalize_mac_examples)
qed

theorem normalize_mac_separators_witness:
  "ascii_lowering sample_db \<and>
   normalize_mac sample_db (str ''not-a-mac'') = Inl ValueError \<and>
   request_port sample_db (Some empty_registry) (str ''t'') (str ''not-a-mac'') =
     (Inl (HTTPException 400), Some empty_registry) \<and>
   status_code (fst (request_port sample_db (Some empty_registry) (str ''t'') (str ''not-a-mac''))) =
     400 \<and>
   normalize_mac sample_db (str ''aabbcc'') = Inl ValueError \<and>
   normalize_mac sample_db (str ''gggggggggggg'') = Inr (str ''gg:gg:gg:gg:gg:gg'')"
proof -
  note t = normalize_mac_separators
    [of sample_db "str ''not-a-mac''" "Some empty_registry" "str ''t''"]
  have a: "ascii_lowering sample_db"
    by (rule sample_db_ascii)
  have e: "normalize_mac sample_db (str ''aabbcc'') = Inl ValueError \<and>
      normalize_mac sample_db (str ''not-a-mac'') = Inl ValueError \<and>
      normalize_mac sample_db (str ''gggggggggggg'') = Inr (str ''gg:gg:gg:gg:gg:gg'')"
    using a t [THEN conjunct2, THEN conjunct2] by (rule rev_mp)
  have v: "normalize_mac sample_db (str ''not-a-mac'') = Inl ValueError"
    using e by (elim conjE)
  have r: "request_port sample_db (Some empty_registry) (str ''t'') (str ''not-a-mac'') =
       (Inl (HTTPException 400), Some empty_registry) \<and>
     status_code (fst (request_port sample_db (Some empty_registry) (str ''t'') (str ''not-a-mac''))) =
       400"
    using v t [THEN conjunct2, THEN conjunct1] by (rule rev_mp)
  from a v r [THEN conjunct1] r [THEN conjunct2] e [THEN conjunct1]
    e [THEN conjunct2, THEN conjunct2]
  show ?thesis
    by (intro conjI)
qed

text \<open>
  Claim C9: normalisation is idempotent where it succeeds: if
  \<open>normalize_mac x\<close> returns \<open>y\<close>, then \<open>normalize_mac y\<close> returns \<open>y\<close>, for
  every string \<open>x\<close> of Unicode code points and every character database
  that lowercases ASCII as ASCII and whose lowercase code points are left as
  they are by lowercasing (\<^const>\<open>ascii_lowering\<close>, \<^const>\<open>lowering_stable\<close>). The
  three spellings \<open>aa:bb:cc:dd:ee:ff\<close>,
  \<open>AA-BB-CC-DD-EE-FF\<close> and \<open>aabbccddeeff\<close> all normalise to
  \<open>aa:bb:cc:dd:ee:ff\<close>.
\<close>

theorem normalize_mac_idempotent:
  "(ascii_lowering db \<and> lowering_stable db \<and> normalize_mac db x = Inr y \<longrightarrow>
      normalize_mac db y = Inr y) \<and>
   (ascii_lowering db \<longrightarrow>
      normalize_mac db (str ''aa:bb:cc:dd:ee:ff'') = Inr (str ''aa:bb:cc:dd:ee:ff'') \<and>
      normalize_mac db (str ''AA-BB-CC-DD-EE-FF'') = Inr (str ''aa:bb:cc:dd:ee:ff'') \<and>
      normalize_mac db (str ''aabbccddeeff'') = Inr (str ''aa:bb:cc:dd:ee:ff''))"
proof (intro conjI impI)
  assume "ascii_lowering db \<and> lowering_stable db \<and> normalize_mac db x = Inr y"
  then show "normalize_mac db y = Inr y"
    by (elim conjE) (rule normalize_mac_idem)
next
  assume "ascii_lowering db"
  then show "normalize_mac db (str ''aa:bb:cc:dd:ee:ff'') = Inr (str ''aa:bb:cc:dd:ee:ff'')"
    by (rule normalize_mac_examples)
next
  assume "ascii_lowering db"
  then show "normalize_mac db (str ''AA-BB-CC-DD-EE-FF'') = Inr (str ''aa:bb:cc:dd:ee:ff'')"
    by (rule normalize_mac_examples)
next
  assume "ascii_lowering db"
  then show "normalize_mac db (str ''aabbccddeeff'') = Inr (str ''aa:bb:cc:dd:ee:ff'')"
    by (rule normalize_mac_examples)
qed

theorem normalize_mac_idempotent_witness:
  "ascii_lowering sample_db \<and> lowering_stable sample_db \<and>
   normalize_mac sample_db [192, 304, 45, 931, 46, 66, 192, 192, 192, 192, 192, 192, 192] =
     Inr [224, 105, 58, 775, 963, 58, 98, 224, 58, 224, 224, 58, 224, 224, 58, 224, 224] \<and>
   normalize_mac sample_db
       [224, 105, 58, 775, 963, 58, 98, 224, 58, 224, 224, 58, 224, 224, 58, 224, 224] =
     Inr [224, 105, 58, 775, 963, 58, 98, 224, 58, 224, 224, 58, 224, 224, 58, 224, 224] \<and>
   normalize_mac sample_db (str ''AA-BB-CC-DD-EE-FF'') = Inr (str ''aa:bb:cc:dd:ee:ff'') \<and>
   normalize_mac sample_db (str ''aa:bb:cc:dd:ee:ff'') = Inr (str ''aa:bb:cc:dd:ee:ff'')"
proof -
  let ?x = "[192, 304, 45, 931, 46, 66, 192, 192, 192, 192, 192, 192, 192] :: ustring"
  let ?y = "[224, 105, 58, 775, 963, 58, 98, 224, 58, 224, 224, 58, 224, 224, 58, 224, 224]
    :: ustring"
  have a: "ascii_lowering sample_db"
    by (rule sample_db_ascii)
  have s: "lowering_stable sample_db"
    by (rule sample_db_stable)
  have h: "normalize_mac sample_db ?x = Inr ?y"
    by code_simp
  have c: "normalize_mac sample_db ?y = Inr ?y"
    using conjI [OF a conjI [OF s h]]
      normalize_mac_idempotent [of sample_db ?x ?y, THEN conjunct1]
    by (rule rev_mp)
  have e: "normalize_mac sample_db (str ''aa:bb:cc:dd:ee:ff'') = Inr (str ''aa:bb:cc:dd:ee:ff'') \<and>
      normalize_mac sample_db (str ''AA-BB-CC-DD-EE-FF'') = Inr (str ''aa:bb:cc:dd:ee:ff'') \<and>
      normalize_mac sample_db (str ''aabbccddeeff'') = Inr (str ''aa:bb:cc:dd:ee:ff'')"
    using a normalize_mac_idempotent [of sample_db ?x ?y, THEN conjunct2] by (rule rev_mp)
  from a s h c e [THEN conjunct2, THEN conjunct1] e [THEN conjunct1] show ?thesis
    by (intro conjI)
qed

section \<open>Registries with ASCII names\<close>

lemma name_matches_sample:
  "ascii_lowering db \<Longrightarrow> ascii (dev_name d) \<Longrightarrow>
   name_matches db c d = name_matches sample_db c d"
  by (simp add: name_matches_def lower_sample)

lemma name_lookup_sample:
  assumes "ascii_lowering db" and "list_all (\<lambda>d. ascii (dev_name d)) (devices r)"
  shows "name_lookup db r mac = name_lookup sample_db r mac"
proof -
  have "find (name_matches db c) (devices r) = find (name_matches sample_db c) (devices r)" for c
    using assms by (intro find_cong) (simp_all add: list_all_iff name_matches_sample)
  then show ?thesis
    by (simp add: name_lookup_def devices_all_def split: option.splits)
qed

lemma find_device_by_mac_sample:
  assumes "ascii_lowering db" and "list_all (\<lambda>d. ascii (dev_name d)) (devices r)"
  shows "find_device_by_mac db (Some r) mac = find_device_by_mac sample_db (Some r) mac"
proof -
  have "resolve_from_custom_field db r mac = resolve_from_custom_field sample_db r mac"
    unfolding resolve_from_custom_field_def name_lookup_sample [OF assms] ..
  then have "resolve_from_interfaces db r mac = resolve_from_interfaces sample_db r mac"
    unfolding resolve_from_interfaces_def by (rule arg_cong)
  then show ?thesis
    by (simp add: find_device_by_mac_def cong: sum.case_cong option.case_cong)
qed

lemma request_port_sample:
  assumes "ascii_lowering db" and "ascii raw"
    and "list_all (\<lambda>d. ascii (dev_name d)) (devices r)"
  shows "request_port db (Some r) now raw = request_port sample_db (Some r) now raw"
  by (simp add: request_port_def normalize_mac_sample [OF assms(1,2)]
      find_device_by_mac_sample [OF assms(1,3)] cong: sum.case_cong option.case_cong)

section \<open>The allocator\<close>

lemma max_port_loop_fold:
  "max_port_loop ds m = fold max (assigned_ports ds) m"
  by (induction ds arbitrary: m) (simp_all add: assigned_ports_def max.commute)

lemma max_port_loop_Max:
  "max_port_loop ds m = Max (set (m # assigned_ports ds))"
  by (simp only: max_port_loop_fold Max.set_eq_fold)

lemma max_port_loop_ge: "m \<le> max_port_loop ds m"
  by (simp add: max_port_loop_Max)

lemma max_port_loop_bound: "p \<in> set (assigned_ports ds) \<Longrightarrow> p \<le> max_port_loop ds m"
  by (simp add: max_port_loop_Max)

lemma next_port_positive: "0 < max_port_loop ds (DEFAULT_START_PORT - 1) + 1"
  using max_port_loop_ge [of "DEFAULT_START_PORT - 1" ds] by (simp add: DEFAULT_START_PORT_def)

lemma get_max_assigned_port_formula:
  assumes "api_fault r DevicesAll = None"
  shows "get_max_assigned_port (Some r) =
     Inr (if assigned_ports (devices r) = [] then DEFAULT_START_PORT - 1
          else max (Max (set (assigned_ports (devices r)))) (DEFAULT_START_PORT - 1))"
proof -
  have "get_max_assigned_port (Some r) =
      Inr (Max (set ((DEFAULT_START_PORT - 1) # assigned_ports (devices r))))"
    using assms by (simp add: get_max_assigned_port_def devices_all_def max_port_loop_Max)
  then show ?thesis
    by (simp add: max.commute)
qed

lemma get_max_assigned_port_ok:
  "get_max_assigned_port (Some r) = Inr m \<Longrightarrow> api_fault r DevicesAll = None"
  by (auto simp: get_max_assigned_port_def devices_all_def split: option.splits)

lemma write_assignment_port:
  "write_assignment r now m dev p = (Inr resp, nb') \<Longrightarrow> pr_port resp = p \<and> \<not> pr_existing resp"
  by (auto simp: write_assignment_def Let_def split: option.splits sum.splits)

lemma request_port_new_port:
  assumes "fst (request_port db (Some r) now mac) = Inr resp" and "\<not> pr_existing resp"
  shows "get_max_assigned_port (Some r) = Inr (pr_port resp - 1)"
proof -
  obtain nb' where "request_port db (Some r) now mac = (Inr resp, nb')"
    using assms(1) by (cases "request_port db (Some r) now mac") simp
  with assms(2) show ?thesis
    by (auto simp: request_port_def Let_def split: option.splits sum.splits if_splits prod.splits
        dest!: write_assignment_port)
qed

lemma request_port_new_port_formula:
  assumes "fst (request_port db (Some r) now mac) = Inr resp" and "\<not> pr_existing resp"
  shows "pr_port resp =
     (if assigned_ports (devices r) = [] then DEFAULT_START_PORT - 1
      else max (Max (set (assigned_ports (devices r)))) (DEFAULT_START_PORT - 1)) + 1"
proof -
  have m: "get_max_assigned_port (Some r) = Inr (pr_port resp - 1)"
    using assms by (rule request_port_new_port)
  then have "api_fault r DevicesAll = None"
    by (rule get_max_assigned_port_ok)
  from get_max_assigned_port_formula [OF this] m show ?thesis
    by simp
qed

lemma allocation_examples:
  assumes "ascii_lowering db"
  shows "fst (request_port db (Some (registry_of three_probes [])) (str ''t'')
            (str ''aa:bb:cc:dd:ee:ff'')) =
     Inr \<lparr>pr_mac = str ''aa:bb:cc:dd:ee:ff'', pr_port = 10006, pr_existing = False,
          pr_device_name = Some (str ''probe-aabbccddeeff''), pr_timestamp = str ''t''\<rparr>"
   and "fst (request_port db (Some empty_registry) (str ''t'') (str ''aa:bb:cc:dd:ee:ff'')) =
     Inr \<lparr>pr_mac = str ''aa:bb:cc:dd:ee:ff'', pr_port = 10001, pr_existing = False,
          pr_device_name = Some (str ''probe-aabbccddeeff''), pr_timestamp = str ''t''\<rparr>"
proof -
  have a: "ascii (str ''aa:bb:cc:dd:ee:ff'')"
    by code_simp
  have n: "list_all (\<lambda>d. ascii (dev_name d)) (devices (registry_of three_probes []))"
    "list_all (\<lambda>d. ascii (dev_name d)) (devices empty_registry)"
    by code_simp+
  have s: "fst (request_port sample_db (Some (registry_of three_probes [])) (str ''t'')
            (str ''aa:bb:cc:dd:ee:ff'')) =
     Inr \<lparr>pr_mac = str ''aa:bb:cc:dd:ee:ff'', pr_port = 10006, pr_existing = False,
          pr_device_name = Some (str ''probe-aabbccddeeff''), pr_timestamp = str ''t''\<rparr>"
    "fst (request_port sample_db (Some empty_registry) (str ''t'') (str ''aa:bb:cc:dd:ee:ff'')) =
     Inr \<lparr>pr_mac = str ''aa:bb:cc:dd:ee:ff'', pr_port = 10001, pr_existing = False,
          pr_device_name = Some (str ''probe-aabbccddeeff''), pr_timestamp = str ''t''\<rparr>"
    by code_simp+
  show "fst (request_port db (Some (registry_of three_probes [])) (str ''t'')
            (str ''aa:bb:cc:dd:ee:ff'')) =
     Inr \<lparr>pr_mac = str ''aa:bb:cc:dd:ee:ff'', pr_port = 10006, pr_existing = False,
          pr_device_name = Some (str ''probe-aabbccddeeff''), pr_timestamp = str ''t''\<rparr>"
    by (simp only: request_port_sample [OF assms a n(1)] s(1))
  show "fst (request_port db (Some empty_registry) (str ''t'') (str ''aa:bb:cc:dd:ee:ff'')) =
     Inr \<lparr>pr_mac = str ''aa:bb:cc:dd:ee:ff'', pr_port = 10001, pr_existing = False,
          pr_device_name = Some (str ''probe-aabbccddeeff''), pr_timestamp = str ''t''\<rparr>"
    by (simp only: request_port_sample [OF assms a n(2)] s(2))
qed

lemma allocation_constants:
  "DEFAULT_START_PORT = 10001 \<and> assigned_ports three_probes = [10001, 10002, 10005]"
  by code_simp

text \<open>
  Claim C3: the port of a new allocation is \<open>max(observed_max, floor - 1) + 1\<close>,
  where \<open>observed_max\<close> is the maximum of the defined port attributes of all
  device records and the floor is 10001. With ports 10001, 10002 and 10005
  assigned the next allocation yields 10006, and with no port assigned it
  yields 10001.
\<close>

theorem next_port_is_max_plus_one:
  "(api_fault r DevicesAll = None \<longrightarrow>
      get_max_assigned_port (Some r) =
        Inr (if assigned_ports (devices r) = [] then DEFAULT_START_PORT - 1
             else max (Max (set (assigned_ports (devices r)))) (DEFAULT_START_PORT - 1))) \<and>
   (fst (request_port db (Some r) now mac) = Inr resp \<and> \<not> pr_existing resp \<longrightarrow>
      pr_port resp =
        (if assigned_ports (devices r) = [] then DEFAULT_START_PORT - 1
         else max (Max (set (assigned_ports (devices r)))) (DEFAULT_START_PORT - 1)) + 1) \<and>
   DEFAULT_START_PORT = 10001 \<and>
   assigned_ports three_probes = [10001, 10002, 10005] \<and>
   (ascii_lowering db \<longrightarrow>
      fst (request_port db (Some (registry_of three_probes [])) (str ''t'')
             (str ''aa:bb:cc:dd:ee:ff'')) =
        Inr \<lparr>pr_mac = str ''aa:bb:cc:dd:ee:ff'', pr_port = 10006, pr_existing = False,
             pr_device_name = Some (str ''probe-aabbccddeeff''), pr_timestamp = str ''t''\<rparr> \<and>
      fst (request_port db (Some empty_registry) (str ''t'') (str ''aa:bb:cc:dd:ee:ff'')) =
        Inr \<lparr>pr_mac = str ''aa:bb:cc:dd:ee:ff'', pr_port = 10001, pr_existing = False,
             pr_device_name = Some (str ''probe-aabbccddeeff''), pr_timestamp = str ''t''\<rparr>)"
proof (intro conjI impI)
  assume "api_fault r DevicesAll = None"
  then show "get_max_assigned_port (Some r) =
        Inr (if assigned_ports (devices r) = [] then DEFAULT_START_PORT - 1
             else max (Max (set (assigned_ports (devices r)))) (DEFAULT_START_PORT - 1))"
    by (rule get_max_assigned_port_formula)
next
  assume "fst (request_port db (Some r) now mac) = Inr resp \<and> \<not> pr_existing resp"
  then show "pr_port resp =
        (if assigned_ports (devices r) = [] then DEFAULT_START_PORT - 1
         else max (Max (set (assigned_ports (devices r)))) (DEFAULT_START_PORT - 1)) + 1"
    by (elim conjE) (rule request_port_new_port_formula)
next
  show "DEFAULT_START_PORT = 10001"
    by (rule allocation_constants [THEN conjunct1])
next
  show "assigned_ports three_probes = [10001, 10002, 10005]"
    by (rule allocation_constants [THEN conjunct2])
next
  assume "ascii_lowering db"
  then show "fst (request_port db (Some (registry_of three_probes [])) (str ''t'')
             (str ''aa:bb:cc:dd:ee:ff'')) =
        Inr \<lparr>pr_mac = str ''aa:bb:cc:dd:ee:ff'', pr_port = 10006, pr_existing = False,
             pr_device_name = Some (str ''probe-aabbccddeeff''), pr_timestamp = str ''t''\<rparr>"
    by (rule allocation_examples)
next
  assume "ascii_lowering db"
  then show "fst (request_port db (Some empty_registry) (str ''t'') (str ''aa:bb:cc:dd:ee:ff'')) =
        Inr \<lparr>pr_mac = str ''aa:bb:cc:dd:ee:ff'', pr_port = 10001, pr_existing = False,
             pr_device_name = Some (str ''probe-aabbccddeeff''), pr_timestamp = str ''t''\<rparr>"
    by (rule allocation_examples)
qed

theorem next_port_is_max_plus_one_witness:
  "api_fault (registry_of three_probes []) DevicesAll = None \<and>
   get_max_assigned_port (Some (registry_of three_probes [])) = Inr 10005 \<and>
   ascii_lowering sample_db \<and>
   fst (request_port sample_db (Some (registry_of three_probes [])) (str ''t'')
          (str ''aa:bb:cc:dd:ee:ff'')) =
     Inr \<lparr>pr_mac = str ''aa:bb:cc:dd:ee:ff'', pr_port = 10006, pr_existing = False,
          pr_device_name = Some (str ''probe-aabbccddeeff''), pr_timestamp = str ''t''\<rparr> \<and>
   \<not> pr_existing \<lparr>pr_mac = str ''aa:bb:cc:dd:ee:ff'', pr_port = 10006, pr_existing = False,
          pr_device_name = Some (str ''probe-aabbccddeeff''), pr_timestamp = str ''t''\<rparr> \<and>
   (10006::int) =
     (if assigned_ports (devices (registry_of three_probes [])) = [] then DEFAULT_START_PORT - 1
      else max (Max (set (assigned_ports (devices (registry_of three_probes [])))))
             (DEFAULT_START_PORT - 1)) + 1"
proof -
  let ?resp = "\<lparr>pr_mac = str ''aa:bb:cc:dd:ee:ff'', pr_port = 10006, pr_existing = False,
          pr_device_name = Some (str ''probe-aabbccddeeff''), pr_timestamp = str ''t''\<rparr>"
  note t = next_port_is_max_plus_one
    [of "registry_of three_probes []" sample_db "str ''t''" "str ''aa:bb:cc:dd:ee:ff''" ?resp]
  have h1: "api_fault (registry_of three_probes []) DevicesAll = None"
    by code_simp
  have a: "ascii_lowering sample_db"
    by (rule sample_db_ascii)
  have h2: "fst (request_port sample_db (Some (registry_of three_probes [])) (str ''t'')
      (str ''aa:bb:cc:dd:ee:ff'')) = Inr ?resp"
    using a t [THEN conjunct2, THEN conjunct2, THEN conjunct2, THEN conjunct2]
    by (rule rev_mp [THEN conjunct1])
  have h3: "\<not> pr_existing ?resp"
    by simp
  have h4: "get_max_assigned_port (Some (registry_of three_probes [])) = Inr 10005"
    by code_simp
  have "pr_port ?resp =
     (if assigned_ports (devices (registry_of three_probes [])) = [] then DEFAULT_START_PORT - 1
      else max (Max (set (assigned_ports (devices (registry_of three_probes [])))))
             (DEFAULT_START_PORT - 1)) + 1"
    using conjI [OF h2 h3] t [THEN conjunct2, THEN conjunct1] by (rule rev_mp)
  then have h5: "(10006::int) =
     (if assigned_ports (devices (registry_of three_probes [])) = [] then DEFAULT_START_PORT - 1
      else max (Max (set (assigned_ports (devices (registry_of three_probes [])))))
             (DEFAULT_START_PORT - 1)) + 1"
    by (simp only: port_response.simps)
  from h1 h4 a h2 h3 h5 show ?thesis
    by (intro conjI)
qed

section \<open>The health endpoint\<close>

text \<open>
  Claim C8, as stated, fails: the health operation does not report whether the
  registry can be reached. On a registry on which every call raises, it still
  answers \<open>healthy\<close> with \<open>netbox_connected\<close> true, while a port request on
  the same registry is answered with status 500.
\<close>

theorem health_check_ignores_registry:
  "devices_all dead_registry = Inl RequestError \<and>
   mac_addresses_filter dead_registry (str ''aa:bb:cc:dd:ee:ff'') = Inl RequestError \<and>
   health_check (Some dead_registry) (str ''t'') =
     Inr \<lparr>hr_status = str ''healthy'', netbox_connected = True, hr_timestamp = str ''t''\<rparr> \<and>
   status_code (fst (request_port sample_db (Some dead_registry) (str ''t'')
     (str ''aa:bb:cc:dd:ee:ff''))) = 500"
  by code_simp

text \<open>
  Claim C8, amended: the health operation never fails. For every state it
  answers with status 200 and a body holding the status \<open>healthy\<close>, the
  boolean \<open>netbox_connected\<close> and a timestamp. The boolean tells whether the
  service holds a registry client, which is settled when the service starts;
  the answer is the same for every registry behind that client, whether it
  can be reached or not.
\<close>

theorem health_check_never_fails:
  "status_code (health_check nb now) = 200 \<and>
   health_check nb now =
     Inr \<lparr>hr_status = str ''healthy'', netbox_connected = (nb \<noteq> None), hr_timestamp = now\<rparr> \<and>
   health_check None now =
     Inr \<lparr>hr_status = str ''healthy'', netbox_connected = False, hr_timestamp = now\<rparr> \<and>
   health_check (Some r) now = health_check (Some r') now"
  by (cases nb) (simp_all add: health_check_def)

section \<open>The resolver\<close>








lemma devices_get_mem: "devices_get r i = Inr (Some d) \<Longrightarrow> d \<in> set (devices r)"
  by (auto simp: devices_get_def find_Some_iff split: option.splits)

lemma mac_objects_loop_mem:
  "mac_objects_loop r objs = Inr (Some (Some d)) \<Longrightarrow> d \<in> set (devices r)"
  by (induction objs) (auto split: option.splits sum.splits dest: devices_get_mem)

lemma interfaces_loop_mem:
  "interfaces_loop r ifs = Inr (Some (Some d)) \<Longrightarrow> d \<in> set (devices r)"
  by (induction ifs) (auto split: option.splits sum.splits dest: devices_get_mem)

lemma mac_object_lookup_mem:
  "mac_object_lookup r mac = Inr (Some (Some d)) \<Longrightarrow> d \<in> set (devices r)"
  by (auto simp: mac_object_lookup_def split: sum.splits if_splits dest: mac_objects_loop_mem)

lemma interface_lookup_mem:
  "interface_lookup r mac = Some (Some d) \<Longrightarrow> d \<in> set (devices r)"
  by (auto simp: interface_lookup_def split: sum.splits dest: interfaces_loop_mem)

lemma custom_field_lookup_mem:
  assumes "custom_field_lookup r mac = Inr (Some d)"
  shows "d \<in> set (devices r)"
proof -
  from assms obtain rest where
    "filter (\<lambda>d. cf_get (custom_fields d) (str ''mac_address'') = PyStr mac) (devices r) = d # rest"
    by (auto simp: custom_field_lookup_def devices_filter_cf_mac_address_def
        split: sum.splits option.splits list.splits)
  then have "d \<in> set (filter (\<lambda>d. cf_get (custom_fields d) (str ''mac_address'') = PyStr mac)
      (devices r))"
    by simp
  then show ?thesis by simp
qed

lemma name_lookup_mem: "name_lookup db r mac = Inr (Some d) \<Longrightarrow> d \<in> set (devices r)"
  by (auto simp: name_lookup_def devices_all_def Let_def find_Some_iff split: sum.splits option.splits)

lemma find_device_by_mac_mem:
  "find_device_by_mac db (Some r) mac = Inr (Some d) \<Longrightarrow> d \<in> set (devices r)"
  by (auto simp: find_device_by_mac_def resolve_from_interfaces_def resolve_from_custom_field_def
      split: sum.splits option.splits
      dest: mac_object_lookup_mem interface_lookup_mem custom_field_lookup_mem name_lookup_mem)

text \<open>Each of the first two loops asks for the device of the first record that
  leads to one, and returns what it is given.\<close>

lemma mac_objects_loop_links:
  "mac_objects_loop r objs =
     (case mac_object_links objs of
        [] \<Rightarrow> Inr None
      | i # rest \<Rightarrow> (case devices_get r i of Inl e \<Rightarrow> Inl e | Inr res \<Rightarrow> Inr (Some res)))"
  by (induction objs) (simp_all add: mac_object_links_def map_filter_simps split: option.splits)

lemma interfaces_loop_links:
  "interfaces_loop r ifs =
     (case interface_links ifs of
        [] \<Rightarrow> Inr None
      | i # rest \<Rightarrow> (case devices_get r i of Inl e \<Rightarrow> Inl e | Inr res \<Rightarrow> Inr (Some res)))"
  by (induction ifs) (simp_all add: interface_links_def map_filter_simps split: option.splits)

lemma mac_objects_no_link:
  "mac_addresses_filter r mac = Inr objs \<Longrightarrow> mac_object_links objs = [] \<Longrightarrow>
   find_device_by_mac db (Some r) mac = resolve_from_interfaces db r mac"
  by (simp add: find_device_by_mac_def mac_object_lookup_def mac_objects_loop_links)

lemma mac_objects_filter_error:
  "mac_addresses_filter r mac = Inl e \<Longrightarrow> e \<noteq> AttributeError \<Longrightarrow>
   find_device_by_mac db (Some r) mac = Inl e"
  by (simp add: find_device_by_mac_def mac_object_lookup_def)

lemma mac_objects_get_error:
  "mac_addresses_filter r mac = Inr objs \<Longrightarrow> mac_object_links objs = i # rest \<Longrightarrow>
   devices_get r i = Inl e \<Longrightarrow> e \<noteq> AttributeError \<Longrightarrow>
   find_device_by_mac db (Some r) mac = Inl e"
  by (simp add: find_device_by_mac_def mac_object_lookup_def mac_objects_loop_links)

lemma interfaces_no_link:
  "interfaces_filter r mac = Inr ifs \<Longrightarrow> interface_links ifs = [] \<Longrightarrow>
   resolve_from_interfaces db r mac = resolve_from_custom_field db r mac"
  by (simp add: resolve_from_interfaces_def interface_lookup_def interfaces_loop_links)

lemma interfaces_filter_error:
  "interfaces_filter r mac = Inl e \<Longrightarrow>
   resolve_from_interfaces db r mac = resolve_from_custom_field db r mac"
  by (simp add: resolve_from_interfaces_def interface_lookup_def)

lemma interfaces_get_error:
  "interfaces_filter r mac = Inr ifs \<Longrightarrow> interface_links ifs = i # rest \<Longrightarrow>
   devices_get r i = Inl e \<Longrightarrow>
   resolve_from_interfaces db r mac = resolve_from_custom_field db r mac"
  by (simp add: resolve_from_interfaces_def interface_lookup_def interfaces_loop_links)

lemma custom_field_no_match:
  "devices_filter_cf_mac_address r mac = Inr [] \<Longrightarrow>
   resolve_from_custom_field db r mac = name_lookup db r mac"
  by (simp add: resolve_from_custom_field_def custom_field_lookup_def)

lemma custom_field_error:
  "devices_filter_cf_mac_address r mac = Inl e \<Longrightarrow> resolve_from_custom_field db r mac = Inl e"
  by (simp add: resolve_from_custom_field_def custom_field_lookup_def)

lemma name_lookup_no_match:
  "devices_all r = Inr ds \<Longrightarrow> find (name_matches db (replace colon [] mac)) ds = None \<Longrightarrow>
   name_lookup db r mac = Inr None"
  by (simp add: name_lookup_def)

lemma name_lookup_error:
  "devices_all r = Inl e \<Longrightarrow> name_lookup db r mac = Inl e"
  by (simp add: name_lookup_def)

text \<open>
  Claim C5, as stated, fails: an unexpected registry error in the second
  strategy is swallowed. Here the interface query raises a request error, and
  the resolver still returns the device it finds by the custom field.
\<close>

theorem interface_error_is_swallowed:
  "interfaces_filter
     (registry_of [probe_record 1 (str ''edge-probe-7'')
        [(str ''mac_address'', PyStr (str ''aa:bb:cc:dd:ee:ff'')),
         (CUSTOM_FIELD_NAME, PyInt 10001)]]
        [(InterfacesFilter, RequestError)])
     (str ''aa:bb:cc:dd:ee:ff'') = Inl RequestError \<and>
   find_device_by_mac sample_db
     (Some (registry_of [probe_record 1 (str ''edge-probe-7'')
        [(str ''mac_address'', PyStr (str ''aa:bb:cc:dd:ee:ff'')),
         (CUSTOM_FIELD_NAME, PyInt 10001)]]
        [(InterfacesFilter, RequestError)]))
     (str ''aa:bb:cc:dd:ee:ff'') =
   Inr (Some (probe_record 1 (str ''edge-probe-7'')
        [(str ''mac_address'', PyStr (str ''aa:bb:cc:dd:ee:ff'')),
         (CUSTOM_FIELD_NAME, PyInt 10001)]))"
  by code_simp

text \<open>
  Claim C5, amended: the resolver tries its four strategies in order. A
  strategy whose query gives no record that leads to a device passes control
  to the next strategy, and the last one then returns that nothing was found.
  An unexpected error (any exception but \<^const>\<open>AttributeError\<close>) raised in the
  first strategy, by its query or by the fetch of the device, and any error
  raised by the query of the third or of the fourth strategy, aborts the
  resolution and is raised to the caller. An error raised in the second
  strategy (the interface lookup), by its query or by the fetch of the device,
  is not raised: the resolver goes on with the third strategy.
\<close>

theorem find_device_by_mac_error_policy:
  "(mac_addresses_filter r mac = Inr objs \<and> mac_object_links objs = [] \<longrightarrow>
      find_device_by_mac db (Some r) mac = resolve_from_interfaces db r mac) \<and>
   (mac_addresses_filter r mac = Inl e \<and> e \<noteq> AttributeError \<longrightarrow>
      find_device_by_mac db (Some r) mac = Inl e) \<and>
   (mac_addresses_filter r mac = Inr objs \<and> mac_object_links objs = i # rest \<and>
    devices_get r i = Inl e \<and> e \<noteq> AttributeError \<longrightarrow>
      find_device_by_mac db (Some r) mac = Inl e) \<and>
   (interfaces_filter r mac = Inr ifs \<and> interface_links ifs = [] \<longrightarrow>
      resolve_from_interfaces db r mac = resolve_from_custom_field db r mac) \<and>
   (interfaces_filter r mac = Inl e \<longrightarrow>
      resolve_from_interfaces db r mac = resolve_from_custom_field db r mac) \<and>
   (interfaces_filter r mac = Inr ifs \<and> interface_links ifs = i # rest \<and>
    devices_get r i = Inl e \<longrightarrow>
      resolve_from_interfaces db r mac = resolve_from_custom_field db r mac) \<and>
   (devices_filter_cf_mac_address r mac = Inr [] \<longrightarrow>
      resolve_from_custom_field db r mac = name_lookup db r mac) \<and>
   (devices_filter_cf_mac_address r mac = Inl e \<longrightarrow>
      resolve_from_custom_field db r mac = Inl e) \<and>
   (devices_all r = Inr ds \<and> find (name_matches db (replace colon [] mac)) ds = None \<longrightarrow>
      name_lookup db r mac = Inr None) \<and>
   (devices_all r = Inl e \<longrightarrow> name_lookup db r mac = Inl e)"
proof (intro conjI impI; (elim conjE)?)
  show "find_device_by_mac db (Some r) mac = resolve_from_interfaces db r mac"
    if "mac_addresses_filter r mac = Inr objs" "mac_object_links objs = []"
    using that by (rule mac_objects_no_link)
  show "find_device_by_mac db (Some r) mac = Inl e"
    if "mac_addresses_filter r mac = Inl e" "e \<noteq> AttributeError"
    using that by (rule mac_objects_filter_error)
  show "find_device_by_mac db (Some r) mac = Inl e"
    if "mac_addresses_filter r mac = Inr objs" "mac_object_links objs = i # rest"
      "devices_get r i = Inl e" "e \<noteq> AttributeError"
    using that by (rule mac_objects_get_error)
  show "resolve_from_interfaces db r mac = resolve_from_custom_field db r mac"
    if "interfaces_filter r mac = Inr ifs" "interface_links ifs = []"
    using that by (rule interfaces_no_link)
  show "resolve_from_interfaces db r mac = resolve_from_custom_field db r mac"
    if "interfaces_filter r mac = Inl e"
    using that by (rule interfaces_filter_error)
  show "resolve_from_interfaces db r mac = resolve_from_custom_field db r mac"
    if "interfaces_filter r mac = Inr ifs" "interface_links ifs = i # rest"
      "devices_get r i = Inl e"
    using that by (rule interfaces_get_error)
  show "resolve_from_custom_field db r mac = name_lookup db r mac"
    if "devices_filter_cf_mac_address r mac = Inr []"
    using that by (rule custom_field_no_match)
  show "resolve_from_custom_field db r mac = Inl e"
    if "devices_filter_cf_mac_address r mac = Inl e"
    using that by (rule custom_field_error)
  show "name_lookup db r mac = Inr None"
    if "devices_all r = Inr ds" "find (name_matches db (replace colon [] mac)) ds = None"
    using that by (rule name_lookup_no_match)
  show "name_lookup db r mac = Inl e"
    if "devices_all r = Inl e"
    using that by (rule name_lookup_error)
qed

theorem find_device_by_mac_error_policy_witness:
  "mac_addresses_filter (registry_of three_probes []) (str ''aa:bb:cc:dd:ee:ff'') = Inr [] \<and>
   mac_object_links [] = [] \<and>
   find_device_by_mac sample_db (Some (registry_of three_probes [])) (str ''aa:bb:cc:dd:ee:ff'') =
     resolve_from_interfaces sample_db (registry_of three_probes []) (str ''aa:bb:cc:dd:ee:ff'') \<and>
   mac_addresses_filter (registry_of three_probes [(MacAddressesFilter, RequestError)])
     (str ''aa:bb:cc:dd:ee:ff'') = Inl RequestError \<and>
   RequestError \<noteq> AttributeError \<and>
   find_device_by_mac sample_db
     (Some (registry_of three_probes [(MacAddressesFilter, RequestError)]))
     (str ''aa:bb:cc:dd:ee:ff'') = Inl RequestError \<and>
   mac_addresses_filter (linked_registry [(DevicesGet, RequestError)]) (str ''aa:bb:cc:dd:ee:ff'') =
     Inr (mac_addresses (linked_registry [])) \<and>
   mac_object_links (mac_addresses (linked_registry [])) = [3] \<and>
   devices_get (linked_registry [(DevicesGet, RequestError)]) 3 = Inl RequestError \<and>
   find_device_by_mac sample_db (Some (linked_registry [(DevicesGet, RequestError)]))
     (str ''aa:bb:cc:dd:ee:ff'') = Inl RequestError \<and>
   interfaces_filter (registry_of three_probes []) (str ''aa:bb:cc:dd:ee:ff'') = Inr [] \<and>
   interface_links [] = [] \<and>
   resolve_from_interfaces sample_db (registry_of three_probes []) (str ''aa:bb:cc:dd:ee:ff'') =
     resolve_from_custom_field sample_db (registry_of three_probes [])
       (str ''aa:bb:cc:dd:ee:ff'') \<and>
   interfaces_filter (registry_of three_probes [(InterfacesFilter, RequestError)])
     (str ''aa:bb:cc:dd:ee:ff'') = Inl RequestError \<and>
   resolve_from_interfaces sample_db (registry_of three_probes [(InterfacesFilter, RequestError)])
       (str ''aa:bb:cc:dd:ee:ff'') =
     resolve_from_custom_field sample_db
       (registry_of three_probes [(InterfacesFilter, RequestError)]) (str ''aa:bb:cc:dd:ee:ff'') \<and>
   interfaces_filter (linked_registry [(DevicesGet, RequestError)]) (str ''aa:bb:cc:dd:ee:ff'') =
     Inr (interfaces (linked_registry [])) \<and>
   interface_links (interfaces (linked_registry [])) = [3] \<and>
   resolve_from_interfaces sample_db (linked_registry [(DevicesGet, RequestError)])
       (str ''aa:bb:cc:dd:ee:ff'') =
     resolve_from_custom_field sample_db (linked_registry [(DevicesGet, RequestError)])
       (str ''aa:bb:cc:dd:ee:ff'') \<and>
   devices_filter_cf_mac_address (registry_of three_probes []) (str ''aa:bb:cc:dd:ee:ff'') =
     Inr [] \<and>
   resolve_from_custom_field sample_db (registry_of three_probes []) (str ''aa:bb:cc:dd:ee:ff'') =
     name_lookup sample_db (registry_of three_probes []) (str ''aa:bb:cc:dd:ee:ff'') \<and>
   devices_filter_cf_mac_address (registry_of three_probes [(DevicesFilter, RequestError)])
     (str ''aa:bb:cc:dd:ee:ff'') = Inl RequestError \<and>
   resolve_from_custom_field sample_db (registry_of three_probes [(DevicesFilter, RequestError)])
     (str ''aa:bb:cc:dd:ee:ff'') = Inl RequestError \<and>
   devices_all (registry_of three_probes []) = Inr three_probes \<and>
   find (name_matches sample_db (replace colon [] (str ''aa:bb:cc:dd:ee:ff''))) three_probes =
     None \<and>
   name_lookup sample_db (registry_of three_probes []) (str ''aa:bb:cc:dd:ee:ff'') = Inr None \<and>
   devices_all (registry_of three_probes [(DevicesAll, RequestError)]) = Inl RequestError \<and>
   name_lookup sample_db (registry_of three_probes [(DevicesAll, RequestError)])
     (str ''aa:bb:cc:dd:ee:ff'') = Inl RequestError"
proof -
  let ?m = "str ''aa:bb:cc:dd:ee:ff''"
  let ?r0 = "registry_of three_probes []"
  let ?rg = "linked_registry [(DevicesGet, RequestError)]"
  note policy = find_device_by_mac_error_policy
  have ne: "RequestError \<noteq> AttributeError"
    by simp
  have h1: "mac_addresses_filter ?r0 ?m = Inr []"
    by code_simp
  have h1': "mac_object_links [] = []"
    by code_simp
  have c1: "find_device_by_mac sample_db (Some ?r0) ?m = resolve_from_interfaces sample_db ?r0 ?m"
    using conjI [OF h1 h1']
      policy [where r = ?r0 and mac = ?m and objs = "[]" and db = sample_db, THEN conjunct1]
    by (rule rev_mp)
  have h2: "mac_addresses_filter (registry_of three_probes [(MacAddressesFilter, RequestError)]) ?m =
      Inl RequestError"
    by code_simp
  have c2: "find_device_by_mac sample_db
      (Some (registry_of three_probes [(MacAddressesFilter, RequestError)])) ?m = Inl RequestError"
    using conjI [OF h2 ne]
      policy [where r = "registry_of three_probes [(MacAddressesFilter, RequestError)]"
        and mac = ?m and e = RequestError and db = sample_db, THEN conjunct2, THEN conjunct1]
    by (rule rev_mp)
  have h3: "mac_addresses_filter ?rg ?m = Inr (mac_addresses (linked_registry []))"
    by code_simp
  have h3': "mac_object_links (mac_addresses (linked_registry [])) = [3]"
    by code_simp
  have h3'': "devices_get ?rg 3 = Inl RequestError"
    by code_simp
  have c3: "find_device_by_mac sample_db (Some ?rg) ?m = Inl RequestError"
    using conjI [OF h3 conjI [OF h3' conjI [OF h3'' ne]]]
      policy [where r = ?rg and mac = ?m and objs = "mac_addresses (linked_registry [])"
        and i = 3 and rest = "[]" and e = RequestError and db = sample_db,
        THEN conjunct2, THEN conjunct2, THEN conjunct1]
    by (rule rev_mp)
  have h4: "interfaces_filter ?r0 ?m = Inr []"
    by code_simp
  have h4': "interface_links [] = []"
    by code_simp
  have c4: "resolve_from_interfaces sample_db ?r0 ?m = resolve_from_custom_field sample_db ?r0 ?m"
    using conjI [OF h4 h4']
      policy [where r = ?r0 and mac = ?m and ifs = "[]" and db = sample_db,
        THEN conjunct2, THEN conjunct2, THEN conjunct2, THEN conjunct1]
    by (rule rev_mp)
  have h5: "interfaces_filter (registry_of three_probes [(InterfacesFilter, RequestError)]) ?m =
      Inl RequestError"
    by code_simp
  have c5: "resolve_from_interfaces sample_db
        (registry_of three_probes [(InterfacesFilter, RequestError)]) ?m =
      resolve_from_custom_field sample_db
        (registry_of three_probes [(InterfacesFilter, RequestError)]) ?m"
    using h5
      policy [where r = "registry_of three_probes [(InterfacesFilter, RequestError)]"
        and mac = ?m and e = RequestError and db = sample_db,
        THEN conjunct2, THEN conjunct2, THEN conjunct2, THEN conjunct2, THEN conjunct1]
    by (rule rev_mp)
  have h6: "interfaces_filter ?rg ?m = Inr (interfaces (linked_registry []))"
    by code_simp
  have h6': "interface_links (interfaces (linked_registry [])) = [3]"
    by code_simp
  have c6: "resolve_from_interfaces sample_db ?rg ?m = resolve_from_custom_field sample_db ?rg ?m"
    using conjI [OF h6 conjI [OF h6' h3'']]
      policy [where r = ?rg and mac = ?m and ifs = "interfaces (linked_registry [])"
        and i = 3 and rest = "[]" and e = RequestError and db = sample_db,
        THEN conjunct2, THEN conjunct2, THEN conjunct2, THEN conjunct2, THEN conjunct2,
        THEN conjunct1]
    by (rule rev_mp)
  have h7: "devices_filter_cf_mac_address ?r0 ?m = Inr []"
    by code_simp
  have c7: "resolve_from_custom_field sample_db ?r0 ?m = name_lookup sample_db ?r0 ?m"
    using h7
      policy [where r = ?r0 and mac = ?m and db = sample_db,
        THEN conjunct2, THEN conjunct2, THEN conjunct2, THEN conjunct2, THEN conjunct2,
        THEN conjunct2, THEN conjunct1]
    by (rule rev_mp)
  have h8: "devices_filter_cf_mac_address (registry_of three_probes [(DevicesFilter, RequestError)])
      ?m = Inl RequestError"
    by code_simp
  have c8: "resolve_from_custom_field sample_db
      (registry_of three_probes [(DevicesFilter, RequestError)]) ?m = Inl RequestError"
    using h8
      policy [where r = "registry_of three_probes [(DevicesFilter, RequestError)]"
        and mac = ?m and e = RequestError and db = sample_db,
        THEN conjunct2, THEN conjunct2, THEN conjunct2, THEN conjunct2, THEN conjunct2,
        THEN conjunct2, THEN conjunct2, THEN conjunct1]
    by (rule rev_mp)
  have h9: "devices_all ?r0 = Inr three_probes"
    by code_simp
  have h9': "find (name_matches sample_db (replace colon [] ?m)) three_probes = None"
    by code_simp
  have c9: "name_lookup sample_db ?r0 ?m = Inr None"
    using conjI [OF h9 h9']
      policy [where r = ?r0 and mac = ?m and ds = three_probes and db = sample_db,
        THEN conjunct2, THEN conjunct2, THEN conjunct2, THEN conjunct2, THEN conjunct2,
        THEN conjunct2, THEN conjunct2, THEN conjunct2, THEN conjunct1]
    by (rule rev_mp)
  have h10: "devices_all (registry_of three_probes [(DevicesAll, RequestError)]) = Inl RequestError"
    by code_simp
  have c10: "name_lookup sample_db (registry_of three_probes [(DevicesAll, RequestError)]) ?m =
      Inl RequestError"
    using h10
      policy [where r = "registry_of three_probes [(DevicesAll, RequestError)]"
        and mac = ?m and e = RequestError and db = sample_db,
        THEN conjunct2, THEN conjunct2, THEN conjunct2, THEN conjunct2, THEN conjunct2,
        THEN conjunct2, THEN conjunct2, THEN conjunct2, THEN conjunct2]
    by (rule rev_mp)
  from h1 h1' c1 h2 ne c2 h3 h3' h3'' c3 h4 h4' c4 h5 c5 h6 h6' c6 h7 c7 h8 c8 h9 h9' c9 h10 c10
  show ?thesis
    by (intro conjI)
qed

section \<open>The orchestrator\<close>

lemma with_port_names: "map dev_name (with_port d p ds) = map dev_name ds"
  by (induction ds) (simp_all add: with_port_def)

lemma with_port_ids: "map dev_id (with_port d p ds) = map dev_id ds"
  by (induction ds) (simp_all add: with_port_def)

lemma with_port_length: "length (with_port d p ds) = length ds"
  by (simp add: with_port_def)

lemma cf_get_update: "cf_get (AList.update k v cf) k = v"
  by (simp add: cf_get_def update_conv')

lemma with_port_value:
  "x \<in> set (with_port d p ds) \<Longrightarrow> dev_id x = dev_id d \<Longrightarrow>
   cf_get (custom_fields x) CUSTOM_FIELD_NAME = PyInt p"
  by (auto simp: with_port_def cf_get_update split: if_splits)

lemma with_port_mem:
  "d \<in> set ds \<Longrightarrow>
   d\<lparr>custom_fields := AList.update CUSTOM_FIELD_NAME (PyInt p) (custom_fields d)\<rparr>
     \<in> set (with_port d p ds)"
  by (auto simp: with_port_def image_iff intro!: bexI [of _ d])

lemma request_port_unassigned:
  assumes "normalize_mac db raw = Inr mac"
    and "find_device_by_mac db (Some r) mac = Inr (Some d)"
    and "\<not> has_port (cf_get (custom_fields d) CUSTOM_FIELD_NAME)"
    and "api_fault r DevicesAll = None" and "api_fault r DeviceSave = None"
  shows "request_port db (Some r) now raw =
     (Inr \<lparr>pr_mac = mac, pr_port = max_port_loop (devices r) (DEFAULT_START_PORT - 1) + 1,
           pr_existing = False, pr_device_name = Some (dev_name d), pr_timestamp = now\<rparr>,
      Some (r\<lparr>devices :=
         with_port d (max_port_loop (devices r) (DEFAULT_START_PORT - 1) + 1) (devices r)\<rparr>))"
  using assms
  by (simp add: request_port_def get_max_assigned_port_def devices_all_def write_assignment_def
      device_save_def with_port_def Let_def)

lemma assigned_ports_drop:
  assumes "\<not> has_port v"
  shows "assigned_ports (filter (\<lambda>x. cf_get (custom_fields x) CUSTOM_FIELD_NAME \<noteq> v) ds) =
         assigned_ports ds"
  using assms by (induction ds) (auto simp: assigned_ports_def)

lemma not_has_port: "v = PyInt 0 \<or> \<not> isinstance_int v \<Longrightarrow> \<not> has_port v"
  by (auto simp: has_port_def)

text \<open>
  Claim C7: when the MAC address resolves to a record with a defined port
  attribute, \<^verbatim>\<open>request_port\<close> returns that port with \<open>existing\<close> true and writes
  nothing: the registry after the call is the registry before it.
\<close>

theorem request_port_existing_is_read_only:
  assumes "normalize_mac db raw = Inr mac"
    and "find_device_by_mac db (Some r) mac = Inr (Some d)"
    and "has_port (cf_get (custom_fields d) CUSTOM_FIELD_NAME)"
  shows "request_port db (Some r) now raw =
     (Inr \<lparr>pr_mac = mac, pr_port = int_value (cf_get (custom_fields d) CUSTOM_FIELD_NAME),
           pr_existing = True, pr_device_name = Some (dev_name d), pr_timestamp = now\<rparr>, Some r)"
  using assms by (simp add: request_port_def)

theorem request_port_existing_is_read_only_witness:
  "normalize_mac sample_db (str ''02-00-00-00-00-03'') = Inr (str ''02:00:00:00:00:03'') \<and>
   find_device_by_mac sample_db (Some (registry_of three_probes [])) (str ''02:00:00:00:00:03'') =
     Inr (Some (probe_record 3 (str ''probe-020000000003'') [(CUSTOM_FIELD_NAME, PyInt 10005)])) \<and>
   has_port (cf_get (custom_fields
     (probe_record 3 (str ''probe-020000000003'') [(CUSTOM_FIELD_NAME, PyInt 10005)]))
     CUSTOM_FIELD_NAME) \<and>
   int_value (cf_get (custom_fields
     (probe_record 3 (str ''probe-020000000003'') [(CUSTOM_FIELD_NAME, PyInt 10005)]))
     CUSTOM_FIELD_NAME) = 10005 \<and>
   request_port sample_db (Some (registry_of three_probes [])) (str ''t'')
       (str ''02-00-00-00-00-03'') =
     (Inr \<lparr>pr_mac = str ''02:00:00:00:00:03'',
           pr_port = int_value (cf_get (custom_fields
             (probe_record 3 (str ''probe-020000000003'') [(CUSTOM_FIELD_NAME, PyInt 10005)]))
             CUSTOM_FIELD_NAME),
           pr_existing = True,
           pr_device_name = Some (dev_name
             (probe_record 3 (str ''probe-020000000003'') [(CUSTOM_FIELD_NAME, PyInt 10005)])),
           pr_timestamp = str ''t''\<rparr>,
      Some (registry_of three_probes []))"
proof -
  let ?d = "probe_record 3 (str ''probe-020000000003'') [(CUSTOM_FIELD_NAME, PyInt 10005)]"
  have h1: "normalize_mac sample_db (str ''02-00-00-00-00-03'') = Inr (str ''02:00:00:00:00:03'')"
    by code_simp
  have h2: "find_device_by_mac sample_db (Some (registry_of three_probes []))
      (str ''02:00:00:00:00:03'') = Inr (Some ?d)"
    by code_simp
  have h3: "has_port (cf_get (custom_fields ?d) CUSTOM_FIELD_NAME)"
    by code_simp
  have h4: "int_value (cf_get (custom_fields ?d) CUSTOM_FIELD_NAME) = 10005"
    by code_simp
  from h1 h2 h3 h4 request_port_existing_is_read_only [OF h1 h2 h3, of "str ''t''"]
  show ?thesis
    by (intro conjI)
qed

text \<open>
  Claim C6: when the MAC address resolves to a record without a defined port
  attribute, and the registry answers the calls made, \<^verbatim>\<open>request_port\<close> sets the
  newly computed port on that same record and returns \<open>existing\<close> false with
  the record's own name: the record is one of the registry, the device
  table keeps its length, its names and its ids, and the record now carries
  the port.
\<close>

theorem request_port_completes_record:
  assumes "normalize_mac db raw = Inr mac"
    and "find_device_by_mac db (Some r) mac = Inr (Some d)"
    and "\<not> has_port (cf_get (custom_fields d) CUSTOM_FIELD_NAME)"
    and "api_fault r DevicesAll = None" and "api_fault r DeviceSave = None"
    and "p = max_port_loop (devices r) (DEFAULT_START_PORT - 1) + 1"
  shows "request_port db (Some r) now raw =
           (Inr \<lparr>pr_mac = mac, pr_port = p, pr_existing = False,
                 pr_device_name = Some (dev_name d), pr_timestamp = now\<rparr>,
            Some (r\<lparr>devices := with_port d p (devices r)\<rparr>)) \<and>
         d \<in> set (devices r) \<and>
         length (with_port d p (devices r)) = length (devices r) \<and>
         map dev_name (with_port d p (devices r)) = map dev_name (devices r) \<and>
         map dev_id (with_port d p (devices r)) = map dev_id (devices r) \<and>
         d\<lparr>custom_fields := AList.update CUSTOM_FIELD_NAME (PyInt p) (custom_fields d)\<rparr>
           \<in> set (with_port d p (devices r)) \<and>
         cf_get (AList.update CUSTOM_FIELD_NAME (PyInt p) (custom_fields d)) CUSTOM_FIELD_NAME =
           PyInt p"
proof -
  have mem: "d \<in> set (devices r)"
    using assms(2) by (rule find_device_by_mac_mem)
  have "request_port db (Some r) now raw =
           (Inr \<lparr>pr_mac = mac, pr_port = p, pr_existing = False,
                 pr_device_name = Some (dev_name d), pr_timestamp = now\<rparr>,
            Some (r\<lparr>devices := with_port d p (devices r)\<rparr>))"
    unfolding assms(6) using assms(1-5) by (rule request_port_unassigned)
  with mem show ?thesis
    by (simp add: with_port_length with_port_names with_port_ids with_port_mem cf_get_update)
qed

theorem request_port_completes_record_witness:
  "normalize_mac sample_db (str ''aabb.ccdd.eeff'') = Inr (str ''aa:bb:cc:dd:ee:ff'') \<and>
   find_device_by_mac sample_db (Some (registry_of unprovisioned [])) (str ''aa:bb:cc:dd:ee:ff'') =
     Inr (Some (probe_record 4 (str ''Probe-AA:BB:CC:DD:EE:FF'') [])) \<and>
   \<not> has_port (cf_get (custom_fields (probe_record 4 (str ''Probe-AA:BB:CC:DD:EE:FF'') []))
     CUSTOM_FIELD_NAME) \<and>
   request_port sample_db (Some (registry_of unprovisioned [])) (str ''t'')
       (str ''aabb.ccdd.eeff'') =
     (Inr \<lparr>pr_mac = str ''aa:bb:cc:dd:ee:ff'', pr_port = 10006, pr_existing = False,
           pr_device_name = Some (dev_name (probe_record 4 (str ''Probe-AA:BB:CC:DD:EE:FF'') [])),
           pr_timestamp = str ''t''\<rparr>,
      Some ((registry_of unprovisioned [])\<lparr>devices :=
         with_port (probe_record 4 (str ''Probe-AA:BB:CC:DD:EE:FF'') []) 10006
           (devices (registry_of unprovisioned []))\<rparr>)) \<and>
   with_port (probe_record 4 (str ''Probe-AA:BB:CC:DD:EE:FF'') []) 10006
       (devices (registry_of unprovisioned [])) =
     three_probes @
       [probe_record 4 (str ''Probe-AA:BB:CC:DD:EE:FF'') [(CUSTOM_FIELD_NAME, PyInt 10006)]]"
proof -
  let ?d = "probe_record 4 (str ''Probe-AA:BB:CC:DD:EE:FF'') []"
  let ?r = "registry_of unprovisioned []"
  have h1: "normalize_mac sample_db (str ''aabb.ccdd.eeff'') = Inr (str ''aa:bb:cc:dd:ee:ff'')"
    by code_simp
  have h2: "find_device_by_mac sample_db (Some ?r) (str ''aa:bb:cc:dd:ee:ff'') = Inr (Some ?d)"
    by code_simp
  have h3: "\<not> has_port (cf_get (custom_fields ?d) CUSTOM_FIELD_NAME)"
    by code_simp
  have h4: "api_fault ?r DevicesAll = None"
    by code_simp
  have h5: "api_fault ?r DeviceSave = None"
    by code_simp
  have h6: "10006 = max_port_loop (devices ?r) (DEFAULT_START_PORT - 1) + 1"
    by code_simp
  have h7: "with_port ?d 10006 (devices ?r) =
     three_probes @
       [probe_record 4 (str ''Probe-AA:BB:CC:DD:EE:FF'') [(CUSTOM_FIELD_NAME, PyInt 10006)]]"
    by code_simp
  from h1 h2 h3 h7
    request_port_completes_record [OF h1 h2 h3 h4 h5 h6, of "str ''t''", THEN conjunct1]
  show ?thesis
    by (intro conjI)
qed

text \<open>
  Claim C10: a record whose port attribute holds 0 or a value that is not an
  integer counts as having no port, for the allocator and for the
  orchestrator alike: the value does not contribute to the maximum (the
  maximum is the same over the records that do not hold this value), and
  \<^verbatim>\<open>request_port\<close> for the MAC address of that record returns \<open>existing\<close> false
  with the freshly computed port and overwrites the attribute with it.
\<close>

theorem request_port_ignores_zero_and_non_integer:
  assumes "normalize_mac db raw = Inr mac"
    and "find_device_by_mac db (Some r) mac = Inr (Some d)"
    and "cf_get (custom_fields d) CUSTOM_FIELD_NAME = v"
    and "v = PyInt 0 \<or> \<not> isinstance_int v"
    and "api_fault r DevicesAll = None" and "api_fault r DeviceSave = None"
    and "p = max_port_loop (devices r) (DEFAULT_START_PORT - 1) + 1"
  shows "\<not> has_port v \<and>
         max_port_loop (devices r) b =
           max_port_loop
             (filter (\<lambda>x. cf_get (custom_fields x) CUSTOM_FIELD_NAME \<noteq> v) (devices r)) b \<and>
         get_max_assigned_port (Some r) = Inr (p - 1) \<and>
         request_port db (Some r) now raw =
           (Inr \<lparr>pr_mac = mac, pr_port = p, pr_existing = False,
                 pr_device_name = Some (dev_name d), pr_timestamp = now\<rparr>,
            Some (r\<lparr>devices := with_port d p (devices r)\<rparr>)) \<and>
         (\<forall>x \<in> set (with_port d p (devices r)).
            dev_id x = dev_id d \<longrightarrow> cf_get (custom_fields x) CUSTOM_FIELD_NAME = PyInt p)"
proof -
  have np: "\<not> has_port v"
    using assms(4) by (rule not_has_port)
  have mx: "max_port_loop (devices r) b =
      max_port_loop (filter (\<lambda>x. cf_get (custom_fields x) CUSTOM_FIELD_NAME \<noteq> v) (devices r)) b"
    by (simp only: max_port_loop_fold assigned_ports_drop [OF np])
  have gm: "get_max_assigned_port (Some r) = Inr (p - 1)"
    using assms(5,7) by (simp add: get_max_assigned_port_def devices_all_def)
  have np': "\<not> has_port (cf_get (custom_fields d) CUSTOM_FIELD_NAME)"
    using np assms(3) by simp
  have rp: "request_port db (Some r) now raw =
           (Inr \<lparr>pr_mac = mac, pr_port = p, pr_existing = False,
                 pr_device_name = Some (dev_name d), pr_timestamp = now\<rparr>,
            Some (r\<lparr>devices := with_port d p (devices r)\<rparr>))"
    unfolding assms(7) using assms(1,2) np' assms(5,6) by (rule request_port_unassigned)
  have ow: "\<forall>x \<in> set (with_port d p (devices r)).
            dev_id x = dev_id d \<longrightarrow> cf_get (custom_fields x) CUSTOM_FIELD_NAME = PyInt p"
    by (auto dest: with_port_value)
  from np mx gm rp ow show ?thesis
    by (intro conjI)
qed

theorem request_port_ignores_zero_and_non_integer_witness:
  "normalize_mac sample_db (str ''AABBCCDDEEFF'') = Inr (str ''aa:bb:cc:dd:ee:ff'') \<and>
   find_device_by_mac sample_db (Some (registry_of (mislabelled (PyStr (str ''10009''))) []))
       (str ''aa:bb:cc:dd:ee:ff'') =
     Inr (Some (probe_record 4 (str ''probe-aabbccddeeff'')
       [(CUSTOM_FIELD_NAME, PyStr (str ''10009''))])) \<and>
   (PyStr (str ''10009'') = PyInt 0 \<or> \<not> isinstance_int (PyStr (str ''10009''))) \<and>
   get_max_assigned_port (Some (registry_of (mislabelled (PyStr (str ''10009''))) [])) =
     Inr (10006 - 1) \<and>
   request_port sample_db (Some (registry_of (mislabelled (PyStr (str ''10009''))) [])) (str ''t'')
       (str ''AABBCCDDEEFF'') =
     (Inr \<lparr>pr_mac = str ''aa:bb:cc:dd:ee:ff'', pr_port = 10006, pr_existing = False,
           pr_device_name = Some (dev_name
             (probe_record 4 (str ''probe-aabbccddeeff'')
               [(CUSTOM_FIELD_NAME, PyStr (str ''10009''))])),
           pr_timestamp = str ''t''\<rparr>,
      Some ((registry_of (mislabelled (PyStr (str ''10009''))) [])\<lparr>devices :=
         with_port (probe_record 4 (str ''probe-aabbccddeeff'')
             [(CUSTOM_FIELD_NAME, PyStr (str ''10009''))])
           10006 (devices (registry_of (mislabelled (PyStr (str ''10009''))) []))\<rparr>)) \<and>
   with_port (probe_record 4 (str ''probe-aabbccddeeff'')
         [(CUSTOM_FIELD_NAME, PyStr (str ''10009''))])
       10006 (devices (registry_of (mislabelled (PyStr (str ''10009''))) [])) =
     mislabelled (PyInt 10006) \<and>
   find_device_by_mac sample_db (Some (registry_of (mislabelled (PyInt 0)) []))
       (str ''aa:bb:cc:dd:ee:ff'') =
     Inr (Some (probe_record 4 (str ''probe-aabbccddeeff'') [(CUSTOM_FIELD_NAME, PyInt 0)])) \<and>
   request_port sample_db (Some (registry_of (mislabelled (PyInt 0)) [])) (str ''t'')
       (str ''AABBCCDDEEFF'') =
     (Inr \<lparr>pr_mac = str ''aa:bb:cc:dd:ee:ff'', pr_port = 10006, pr_existing = False,
           pr_device_name = Some (dev_name
             (probe_record 4 (str ''probe-aabbccddeeff'') [(CUSTOM_FIELD_NAME, PyInt 0)])),
           pr_timestamp = str ''t''\<rparr>,
      Some ((registry_of (mislabelled (PyInt 0)) [])\<lparr>devices :=
         with_port (probe_record 4 (str ''probe-aabbccddeeff'') [(CUSTOM_FIELD_NAME, PyInt 0)])
           10006 (devices (registry_of (mislabelled (PyInt 0)) []))\<rparr>))"
proof -
  let ?s = "PyStr (str ''10009'')"
  let ?ds = "probe_record 4 (str ''probe-aabbccddeeff'') [(CUSTOM_FIELD_NAME, ?s)]"
  let ?rs = "registry_of (mislabelled ?s) []"
  let ?dz = "probe_record 4 (str ''probe-aabbccddeeff'') [(CUSTOM_FIELD_NAME, PyInt 0)]"
  let ?rz = "registry_of (mislabelled (PyInt 0)) []"
  have h1: "normalize_mac sample_db (str ''AABBCCDDEEFF'') = Inr (str ''aa:bb:cc:dd:ee:ff'')"
    by code_simp
  have s2: "find_device_by_mac sample_db (Some ?rs) (str ''aa:bb:cc:dd:ee:ff'') = Inr (Some ?ds)"
    by code_simp
  have s3: "cf_get (custom_fields ?ds) CUSTOM_FIELD_NAME = ?s"
    by code_simp
  have s4: "?s = PyInt 0 \<or> \<not> isinstance_int ?s"
    by simp
  have s5: "api_fault ?rs DevicesAll = None"
    by code_simp
  have s6: "api_fault ?rs DeviceSave = None"
    by code_simp
  have s7: "10006 = max_port_loop (devices ?rs) (DEFAULT_START_PORT - 1) + 1"
    by code_simp
  have s8: "with_port ?ds 10006 (devices ?rs) = mislabelled (PyInt 10006)"
    by code_simp
  have z2: "find_device_by_mac sample_db (Some ?rz) (str ''aa:bb:cc:dd:ee:ff'') = Inr (Some ?dz)"
    by code_simp
  have z3: "cf_get (custom_fields ?dz) CUSTOM_FIELD_NAME = PyInt 0"
    by code_simp
  have z4: "PyInt 0 = PyInt 0 \<or> \<not> isinstance_int (PyInt 0)"
    by simp
  have z5: "api_fault ?rz DevicesAll = None"
    by code_simp
  have z6: "api_fault ?rz DeviceSave = None"
    by code_simp
  have z7: "10006 = max_port_loop (devices ?rz) (DEFAULT_START_PORT - 1) + 1"
    by code_simp
  note s = request_port_ignores_zero_and_non_integer [OF h1 s2 s3 s4 s5 s6 s7, of 0 "str ''t''"]
  note z = request_port_ignores_zero_and_non_integer [OF h1 z2 z3 z4 z5 z6 z7, of 0 "str ''t''"]
  from h1 s2 s4 s [THEN conjunct2, THEN conjunct2, THEN conjunct1]
    s [THEN conjunct2, THEN conjunct2, THEN conjunct2, THEN conjunct1] s8 z2
    z [THEN conjunct2, THEN conjunct2, THEN conjunct2, THEN conjunct1]
  show ?thesis
    by (intro conjI)
qed











section \<open>Runs of the service\<close>

lemma request_port_cases:
  assumes "request_port db (Some r) now raw = (res, nb')"
    and "p = max_port_loop (devices r) (DEFAULT_START_PORT - 1) + 1"
  shows "(nb' = Some r \<and> (\<forall>a. res = Inr a \<longrightarrow> pr_existing a)) \<or>
    (\<exists>mac a. nb' = Some (r\<lparr>devices := devices r @ [pending_device r mac p]\<rparr>) \<and>
       res = Inr a \<and> \<not> pr_existing a \<and> pr_port a = p) \<or>
    (\<exists>d a. d \<in> set (devices r) \<and> \<not> has_port (cf_get (custom_fields d) CUSTOM_FIELD_NAME) \<and>
       nb' = Some (r\<lparr>devices := with_port d p (devices r)\<rparr>) \<and>
       res = Inr a \<and> \<not> pr_existing a \<and> pr_port a = p)"
proof (cases "normalize_mac db raw")
  case (Inl e)
  with assms(1) show ?thesis by (auto simp: request_port_def)
next
  case (Inr mac)
  show ?thesis
  proof (cases "find_device_by_mac db (Some r) mac")
    case (Inl e)
    with Inr assms(1) show ?thesis by (auto simp: request_port_def)
  next
    case found: (Inr dev)
    show ?thesis
    proof (cases dev)
      case None
      with Inr found assms show ?thesis
        by (auto simp: request_port_def get_max_assigned_port_def devices_all_def
            write_assignment_def devices_create_def pending_device_def Let_def
            split: option.splits)
    next
      case (Some d)
      with found have mem: "d \<in> set (devices r)"
        by (simp add: find_device_by_mac_mem)
      show ?thesis
      proof (cases "has_port (cf_get (custom_fields d) CUSTOM_FIELD_NAME)")
        case True
        with Inr found Some assms(1) show ?thesis by (auto simp: request_port_def)
      next
        case False
        with Inr found Some assms have
          "(nb' = Some r \<and> (\<forall>a. res = Inr a \<longrightarrow> pr_existing a)) \<or>
           (\<exists>a. nb' = Some (r\<lparr>devices := with_port d p (devices r)\<rparr>) \<and>
              res = Inr a \<and> \<not> pr_existing a \<and> pr_port a = p)"
          by (auto simp: request_port_def get_max_assigned_port_def devices_all_def
              write_assignment_def device_save_def with_port_def Let_def
              split: option.splits)
        with mem False show ?thesis by blast
      qed
    qed
  qed
qed

lemma fold_max_ge: "(x::nat) \<in> set xs \<Longrightarrow> x \<le> fold max xs m"
  by (simp add: Max.set_eq_fold [symmetric])

lemma pending_device_id_fresh: "dev_id (pending_device r mac p) \<notin> set (map dev_id (devices r))"
proof
  assume "dev_id (pending_device r mac p) \<in> set (map dev_id (devices r))"
  then have "dev_id (pending_device r mac p) \<le> fold max (map dev_id (devices r)) 0"
    by (rule fold_max_ge)
  then show False
    by (simp add: pending_device_def)
qed

lemma assigned_ports_append:
  "assigned_ports (xs @ ys) = assigned_ports xs @ assigned_ports ys"
  by (simp add: assigned_ports_def)

lemma assigned_ports_pending:
  "p \<noteq> 0 \<Longrightarrow> assigned_ports [pending_device r mac p] = [p]"
  by (simp add: assigned_ports_def pending_device_def cf_get_def has_port_def)

lemma next_port_unused:
  "max_port_loop ds m + 1 \<notin> set (assigned_ports ds)"
proof
  assume "max_port_loop ds m + 1 \<in> set (assigned_ports ds)"
  then have "max_port_loop ds m + 1 \<le> max_port_loop ds m"
    by (rule max_port_loop_bound)
  then show False by simp
qed

lemma with_port_other_ids:
  "dev_id d \<notin> set (map dev_id ds) \<Longrightarrow> with_port d p ds = ds"
  by (induction ds) (auto simp: with_port_def)

lemma assigned_ports_with_port:
  assumes "distinct (map dev_id ds)" and "d \<in> set ds"
    and "\<not> has_port (cf_get (custom_fields d) CUSTOM_FIELD_NAME)" and "p \<noteq> 0"
  shows "\<exists>xs ys. assigned_ports ds = xs @ ys \<and> assigned_ports (with_port d p ds) = xs @ p # ys"
  using assms(1,2)
proof (induction ds)
  case Nil
  then show ?case by simp
next
  case (Cons x ds)
  show ?case
  proof (cases "x = d")
    case True
    with Cons.prems have "dev_id d \<notin> set (map dev_id ds)"
      by simp
    then have same: "with_port d p ds = ds"
      by (rule with_port_other_ids)
    have "with_port d p (x # ds) =
        d\<lparr>custom_fields := AList.update CUSTOM_FIELD_NAME (PyInt p) (custom_fields d)\<rparr> # ds"
      using True same by (simp add: with_port_def)
    then have "assigned_ports (with_port d p (x # ds)) = p # assigned_ports ds"
      using assms(4) by (simp add: assigned_ports_def cf_get_update has_port_def)
    moreover have "assigned_ports (x # ds) = assigned_ports ds"
      using True assms(3) by (simp add: assigned_ports_def)
    ultimately show ?thesis
      by (intro exI [of _ "[]"] exI [of _ "assigned_ports ds"]) simp
  next
    case False
    with Cons.prems have mem: "d \<in> set ds" and dist: "distinct (map dev_id ds)"
      and ne: "dev_id x \<noteq> dev_id d"
      by auto
    from Cons.IH [OF dist mem] obtain xs ys where
      a: "assigned_ports ds = xs @ ys" and b: "assigned_ports (with_port d p ds) = xs @ p # ys"
      by blast
    have w: "with_port d p (x # ds) = x # with_port d p ds"
      using ne by (simp add: with_port_def)
    have "assigned_ports (x # ds) = (assigned_ports [x] @ xs) @ ys"
      using a assigned_ports_append [of "[x]" ds] by simp
    moreover have "assigned_ports (with_port d p (x # ds)) = (assigned_ports [x] @ xs) @ p # ys"
      unfolding w using b assigned_ports_append [of "[x]" "with_port d p ds"] by simp
    ultimately show ?thesis
      by blast
  qed
qed

text \<open>One request: the registry keeps distinct ids and distinct ports, loses no
  port, and a newly allocated port was not assigned before and is assigned
  afterwards.\<close>

lemma request_port_step:
  assumes "request_port db (Some r) now raw = (res, nb')"
    and "distinct (map dev_id (devices r))"
    and "distinct (assigned_ports (devices r))"
  shows "\<exists>r'. nb' = Some r' \<and>
     distinct (map dev_id (devices r')) \<and>
     distinct (assigned_ports (devices r')) \<and>
     set (assigned_ports (devices r)) \<subseteq> set (assigned_ports (devices r')) \<and>
     set (allocated_ports [res]) \<subseteq>
       set (assigned_ports (devices r')) - set (assigned_ports (devices r))"
proof -
  define p where "p = max_port_loop (devices r) (DEFAULT_START_PORT - 1) + 1"
  have p0: "p \<noteq> 0"
    using next_port_positive [of "devices r"] by (simp add: p_def)
  have fresh: "p \<notin> set (assigned_ports (devices r))"
    unfolding p_def by (rule next_port_unused)
  from request_port_cases [OF assms(1) p_def]
  consider (same) "nb' = Some r" "\<forall>a. res = Inr a \<longrightarrow> pr_existing a"
    | (created) mac a where "nb' = Some (r\<lparr>devices := devices r @ [pending_device r mac p]\<rparr>)"
        "res = Inr a" "\<not> pr_existing a" "pr_port a = p"
    | (updated) d a where "d \<in> set (devices r)"
        "\<not> has_port (cf_get (custom_fields d) CUSTOM_FIELD_NAME)"
        "nb' = Some (r\<lparr>devices := with_port d p (devices r)\<rparr>)"
        "res = Inr a" "\<not> pr_existing a" "pr_port a = p"
    by blast
  then show ?thesis
  proof cases
    case same
    have "allocated_ports [res] = []"
      using same(2) by (cases res) simp_all
    with same(1) assms(2,3) show ?thesis by simp
  next
    case created
    have aps: "assigned_ports (devices r @ [pending_device r mac p]) =
        assigned_ports (devices r) @ [p]"
      using p0 by (simp add: assigned_ports_append assigned_ports_pending)
    have al: "allocated_ports [res] = [p]"
      using created(2-4) by simp
    show ?thesis
      using created(1) assms(2,3) fresh pending_device_id_fresh [of r mac p] aps al by auto
  next
    case updated
    from assigned_ports_with_port [OF assms(2) updated(1,2) p0] obtain xs ys where
      a: "assigned_ports (devices r) = xs @ ys"
      and b: "assigned_ports (with_port d p (devices r)) = xs @ p # ys"
      by blast
    have al: "allocated_ports [res] = [p]"
      using updated(4-6) by simp
    from a assms(3) fresh have "distinct (xs @ p # ys)"
      by auto
    with a b al fresh assms(2) updated(3) show ?thesis
      by (auto simp: with_port_ids)
  qed
qed

lemma allocated_ports_Cons:
  "allocated_ports (res # ress) = allocated_ports [res] @ allocated_ports ress"
  by (cases res) simp_all

lemma serve_invariant:
  assumes "serve db reqs (Some r) = (resps, nb')"
    and "distinct (map dev_id (devices r))"
    and "distinct (assigned_ports (devices r))"
  shows "\<exists>r'. nb' = Some r' \<and>
     distinct (map dev_id (devices r')) \<and>
     distinct (assigned_ports (devices r')) \<and>
     set (assigned_ports (devices r)) \<subseteq> set (assigned_ports (devices r')) \<and>
     distinct (allocated_ports resps) \<and>
     set (allocated_ports resps) \<subseteq>
       set (assigned_ports (devices r')) - set (assigned_ports (devices r))"
  using assms
proof (induction reqs arbitrary: r resps nb')
  case Nil
  then show ?case by auto
next
  case (Cons req reqs)
  obtain now raw where req: "req = (now, raw)"
    by (cases req)
  obtain res nb1 where one: "request_port db (Some r) now raw = (res, nb1)"
    by (cases "request_port db (Some r) now raw")
  obtain ress nb2 where more: "serve db reqs nb1 = (ress, nb2)"
    by (cases "serve db reqs nb1")
  from Cons.prems(1) req one more have out: "resps = res # ress" "nb' = nb2"
    by simp_all
  from request_port_step [OF one Cons.prems(2,3)] obtain r1 where
    r1: "nb1 = Some r1" "distinct (map dev_id (devices r1))"
      "distinct (assigned_ports (devices r1))"
      "set (assigned_ports (devices r)) \<subseteq> set (assigned_ports (devices r1))"
      "set (allocated_ports [res]) \<subseteq>
         set (assigned_ports (devices r1)) - set (assigned_ports (devices r))"
    by blast
  from Cons.IH [OF more [unfolded r1(1)] r1(2,3)] obtain r' where
    r': "nb2 = Some r'" "distinct (map dev_id (devices r'))"
      "distinct (assigned_ports (devices r'))"
      "set (assigned_ports (devices r1)) \<subseteq> set (assigned_ports (devices r'))"
      "distinct (allocated_ports ress)"
      "set (allocated_ports ress) \<subseteq>
         set (assigned_ports (devices r')) - set (assigned_ports (devices r1))"
    by blast
  have d1: "distinct (allocated_ports [res])"
    by (cases res) simp_all
  have disj: "set (allocated_ports [res]) \<inter> set (allocated_ports ress) = {}"
    using r1(5) r'(6) by blast
  have "distinct (allocated_ports resps)"
    unfolding out(1) allocated_ports_Cons [of res ress] using d1 r'(5) disj by simp
  moreover have "set (allocated_ports resps) \<subseteq>
      set (assigned_ports (devices r')) - set (assigned_ports (devices r))"
    unfolding out(1) allocated_ports_Cons [of res ress] using r1(4,5) r'(4,6) by auto
  ultimately show ?case
    using out(2) r'(1-4) r1(4) by auto
qed

text \<open>
  Claim C2: the requests of a run are served one after another, in any
  order. From a registry whose ids and defined ports are pairwise distinct,
  every run, whatever its requests, leaves the defined ports of the device
  records pairwise distinct; the ports that the run allocates are pairwise
  distinct, none of them was assigned before, and each is assigned in the
  registry afterwards. In particular two requests with two MAC addresses that
  both allocate write two distinct ports.
\<close>

theorem serve_keeps_ports_distinct:
  assumes "serve db reqs (Some r) = (resps, nb')"
    and "distinct (map dev_id (devices r))"
    and "distinct (assigned_ports (devices r))"
  shows "case nb' of
           None \<Rightarrow> False
         | Some r' \<Rightarrow>
             distinct (assigned_ports (devices r')) \<and>
             distinct (map dev_id (devices r')) \<and>
             distinct (allocated_ports resps) \<and>
             set (allocated_ports resps) \<subseteq>
               set (assigned_ports (devices r')) - set (assigned_ports (devices r))"
  using serve_invariant [OF assms] by auto

theorem serve_keeps_ports_distinct_witness:
  "serve sample_db
     [(str ''t1'', str ''aa:bb:cc:dd:ee:01''), (str ''t2'', str ''AA-BB-CC-DD-EE-02''),
      (str ''t3'', str ''aabb.ccdd.ee01'')]
     (Some (registry_of three_probes [])) =
   ([Inr \<lparr>pr_mac = str ''aa:bb:cc:dd:ee:01'', pr_port = 10006, pr_existing = False,
           pr_device_name = Some (str ''probe-aabbccddee01''), pr_timestamp = str ''t1''\<rparr>,
     Inr \<lparr>pr_mac = str ''aa:bb:cc:dd:ee:02'', pr_port = 10007, pr_existing = False,
           pr_device_name = Some (str ''probe-aabbccddee02''), pr_timestamp = str ''t2''\<rparr>,
     Inr \<lparr>pr_mac = str ''aa:bb:cc:dd:ee:01'', pr_port = 10006, pr_existing = True,
           pr_device_name = Some (str ''probe-aabbccddee01''), pr_timestamp = str ''t3''\<rparr>],
    Some (registry_of
      (three_probes @
         [probe_record 4 (str ''probe-aabbccddee01'') [(CUSTOM_FIELD_NAME, PyInt 10006)],
          probe_record 5 (str ''probe-aabbccddee02'') [(CUSTOM_FIELD_NAME, PyInt 10007)]]) [])) \<and>
   distinct (map dev_id (devices (registry_of three_probes []))) \<and>
   distinct (assigned_ports (devices (registry_of three_probes []))) \<and>
   distinct (assigned_ports (devices (registry_of
      (three_probes @
         [probe_record 4 (str ''probe-aabbccddee01'') [(CUSTOM_FIELD_NAME, PyInt 10006)],
          probe_record 5 (str ''probe-aabbccddee02'') [(CUSTOM_FIELD_NAME, PyInt 10007)]]) []))) \<and>
   distinct (allocated_ports
     [Inr \<lparr>pr_mac = str ''aa:bb:cc:dd:ee:01'', pr_port = 10006, pr_existing = False,
           pr_device_name = Some (str ''probe-aabbccddee01''), pr_timestamp = str ''t1''\<rparr>,
      Inr \<lparr>pr_mac = str ''aa:bb:cc:dd:ee:02'', pr_port = 10007, pr_existing = False,
           pr_device_name = Some (str ''probe-aabbccddee02''), pr_timestamp = str ''t2''\<rparr>,
      Inr \<lparr>pr_mac = str ''aa:bb:cc:dd:ee:01'', pr_port = 10006, pr_existing = True,
           pr_device_name = Some (str ''probe-aabbccddee01''), pr_timestamp = str ''t3''\<rparr>]) \<and>
   allocated_ports
     [Inr \<lparr>pr_mac = str ''aa:bb:cc:dd:ee:01'', pr_port = 10006, pr_existing = False,
           pr_device_name = Some (str ''probe-aabbccddee01''), pr_timestamp = str ''t1''\<rparr>,
      Inr \<lparr>pr_mac = str ''aa:bb:cc:dd:ee:02'', pr_port = 10007, pr_existing = False,
           pr_device_name = Some (str ''probe-aabbccddee02''), pr_timestamp = str ''t2''\<rparr>,
      Inr \<lparr>pr_mac = str ''aa:bb:cc:dd:ee:01'', pr_port = 10006, pr_existing = True,
           pr_device_name = Some (str ''probe-aabbccddee01''), pr_timestamp = str ''t3''\<rparr>] =
     [10006, 10007]"
proof -
  let ?reqs = "[(str ''t1'', str ''aa:bb:cc:dd:ee:01''), (str ''t2'', str ''AA-BB-CC-DD-EE-02''),
      (str ''t3'', str ''aabb.ccdd.ee01'')]"
  let ?r = "registry_of three_probes []"
  let ?resps = "[Inr \<lparr>pr_mac = str ''aa:bb:cc:dd:ee:01'', pr_port = 10006, pr_existing = False,
           pr_device_name = Some (str ''probe-aabbccddee01''), pr_timestamp = str ''t1''\<rparr>,
     Inr \<lparr>pr_mac = str ''aa:bb:cc:dd:ee:02'', pr_port = 10007, pr_existing = False,
           pr_device_name = Some (str ''probe-aabbccddee02''), pr_timestamp = str ''t2''\<rparr>,
     Inr \<lparr>pr_mac = str ''aa:bb:cc:dd:ee:01'', pr_port = 10006, pr_existing = True,
           pr_device_name = Some (str ''probe-aabbccddee01''), pr_timestamp = str ''t3''\<rparr>]
     :: (failure + port_response) list"
  let ?r' = "registry_of
      (three_probes @
         [probe_record 4 (str ''probe-aabbccddee01'') [(CUSTOM_FIELD_NAME, PyInt 10006)],
          probe_record 5 (str ''probe-aabbccddee02'') [(CUSTOM_FIELD_NAME, PyInt 10007)]]) []"
  have h1: "serve sample_db ?reqs (Some ?r) = (?resps, Some ?r')"
    by code_simp
  have h2: "distinct (map dev_id (devices ?r))"
    by code_simp
  have h3: "distinct (assigned_ports (devices ?r))"
    by code_simp
  have e: "allocated_ports ?resps = [10006, 10007]"
    by code_simp
  have c: "distinct (assigned_ports (devices ?r')) \<and>
      distinct (map dev_id (devices ?r')) \<and>
      distinct (allocated_ports ?resps) \<and>
      set (allocated_ports ?resps) \<subseteq>
        set (assigned_ports (devices ?r')) - set (assigned_ports (devices ?r))"
    using serve_keeps_ports_distinct [OF h1 h2 h3] by (simp only: option.case)
  from h1 h2 h3 c [THEN conjunct1] c [THEN conjunct2, THEN conjunct2, THEN conjunct1] e
  show ?thesis
    by (intro conjI)
qed

text \<open>
  The fourth strategy looks for the twelve characters anywhere in the cleaned
  device name, the prefix \<open>probe\<close> included. A MAC address that begins where
  the prefix ends is therefore resolved to the record of another probe: the
  request allocates nothing and is answered with that record's port.
\<close>

lemma name_match_reaches_into_prefix:
  "serve sample_db
     [(str ''t1'', str ''aa:aa:aa:aa:aa:aa''), (str ''t2'', str ''ea:aa:aa:aa:aa:aa'')]
     (Some empty_registry) =
   ([Inr \<lparr>pr_mac = str ''aa:aa:aa:aa:aa:aa'', pr_port = 10001, pr_existing = False,
           pr_device_name = Some (str ''probe-aaaaaaaaaaaa''), pr_timestamp = str ''t1''\<rparr>,
     Inr \<lparr>pr_mac = str ''ea:aa:aa:aa:aa:aa'', pr_port = 10001, pr_existing = True,
           pr_device_name = Some (str ''probe-aaaaaaaaaaaa''), pr_timestamp = str ''t2''\<rparr>],
    Some (registry_of
      [probe_record 1 (str ''probe-aaaaaaaaaaaa'') [(CUSTOM_FIELD_NAME, PyInt 10001)]] []))"
  by code_simp

end
